theory Spec2Isabelle
  imports Main
begin

section \<open>JavaScript strings and numbers used by installer.ts\<close>

text \<open>
  Strings are lists of characters (code units below 256). \<open>undefined\<close> is \<open>None\<close> of an
  option type wherever the source can produce it.
\<close>

definition apos :: char where
  "apos = CHR 0x27"

definition backslash :: char where
  "backslash = CHR 0x5C"

definition is_js_space :: "char \<Rightarrow> bool" where
  \<comment> \<open>WhiteSpace and LineTerminator code units below 256: TAB, LF, VT, FF, CR, SP, NBSP.\<close>
  "is_js_space c = (c \<in> set [CHR 0x09, CHR 0x0A, CHR 0x0B, CHR 0x0C, CHR 0x0D, CHR 0x20, CHR 0xA0])"

definition js_trim :: "string \<Rightarrow> string" where
  \<comment> \<open>String.prototype.trim\<close>
  "js_trim s = rev (dropWhile is_js_space (rev (dropWhile is_js_space s)))"

fun js_split :: "char \<Rightarrow> string \<Rightarrow> string list" where
  \<comment> \<open>\<open>s.split(c)\<close> for a one-character separator: never an empty array.\<close>
  "js_split c [] = [[]]"
| "js_split c (x # xs) =
     (if x = c then [] # js_split c xs
      else (case js_split c xs of
              [] \<Rightarrow> [[x]]
            | p # ps \<Rightarrow> (x # p) # ps))"

definition js_index :: "'a list \<Rightarrow> nat \<Rightarrow> 'a option" where
  \<comment> \<open>\<open>xs[i]\<close>, and array destructuring: \<open>undefined\<close> out of range.\<close>
  "js_index xs i = (if i < length xs then Some (xs ! i) else None)"

definition js_string :: "string option \<Rightarrow> string" where
  \<comment> \<open>ToString on a string or \<open>undefined\<close> (template literals, \<open>+ ''\<close>, RegExp.test).\<close>
  "js_string v = (case v of None \<Rightarrow> ''undefined'' | Some s \<Rightarrow> s)"

fun js_join :: "string \<Rightarrow> string option list \<Rightarrow> string" where
  \<comment> \<open>Array.prototype.join: \<open>undefined\<close> elements are rendered as the empty string.\<close>
  "js_join sep [] = []"
| "js_join sep [x] = (case x of None \<Rightarrow> [] | Some s \<Rightarrow> s)"
| "js_join sep (x # y # ys) = (case x of None \<Rightarrow> [] | Some s \<Rightarrow> s) @ sep @ js_join sep (y # ys)"

definition replace_all_char :: "char \<Rightarrow> string \<Rightarrow> string \<Rightarrow> string" where
  \<comment> \<open>\<open>s.replace(/c/g, r)\<close> for a single literal character c.\<close>
  "replace_all_char c r s = concat (map (\<lambda>x. if x = c then r else [x]) s)"

definition is_digit :: "char \<Rightarrow> bool" where
  "is_digit c = (c \<in> set ''0123456789'')"

definition digit_val :: "char \<Rightarrow> nat" where
  \<comment> \<open>Value of a digit of base up to 16; 0 on any other character.\<close>
  "digit_val c =
     (if c \<in> set ''0123456789'' then of_char c - 48
      else if c \<in> set ''abcdef'' then of_char c - 87
      else if c \<in> set ''ABCDEF'' then of_char c - 55
      else 0)"

definition digits_value :: "nat \<Rightarrow> string \<Rightarrow> nat" where
  "digits_value b s = foldl (\<lambda>a c. a * b + digit_val c) 0 s"

definition all_in :: "string \<Rightarrow> string \<Rightarrow> bool" where
  \<comment> \<open>A non-empty string over the given alphabet.\<close>
  "all_in alphabet s = (s \<noteq> [] \<and> list_all (\<lambda>c. c \<in> set alphabet) s)"

datatype js_number = NaN | PosInfinity | NegInfinity | Dec int int
  \<comment> \<open>\<open>Dec m e\<close> is the number m * 10^e.\<close>

definition js_negate :: "js_number \<Rightarrow> js_number" where
  "js_negate n = (case n of NaN \<Rightarrow> NaN | PosInfinity \<Rightarrow> NegInfinity
                  | NegInfinity \<Rightarrow> PosInfinity | Dec m e \<Rightarrow> Dec (- m) e)"

definition ExponentPart :: "string \<Rightarrow> int option" where
  \<comment> \<open>\<open>[eE][+-]?digits\<close>, or nothing (exponent 0); \<open>None\<close> when malformed.\<close>
  "ExponentPart s =
     (case s of
        [] \<Rightarrow> Some 0
      | c # r \<Rightarrow>
          if c = CHR ''e'' \<or> c = CHR ''E'' then
            (case r of
               [] \<Rightarrow> None
             | d # r' \<Rightarrow>
                 if d = CHR ''+'' then
                   (if all_in ''0123456789'' r' then Some (int (digits_value 10 r')) else None)
                 else if d = CHR ''-'' then
                   (if all_in ''0123456789'' r' then Some (- int (digits_value 10 r')) else None)
                 else if all_in ''0123456789'' r then Some (int (digits_value 10 r))
                 else None)
          else None)"

definition StrUnsignedDecimalLiteral :: "string \<Rightarrow> js_number" where
  "StrUnsignedDecimalLiteral s =
     (if s = ''Infinity'' then PosInfinity
      else
        let ip = takeWhile is_digit s; r = dropWhile is_digit s;
            has_dot = (r \<noteq> [] \<and> hd r = CHR ''.'');
            r1 = (if has_dot then tl r else r);
            fp = (if has_dot then takeWhile is_digit r1 else []);
            r2 = (if has_dot then dropWhile is_digit r1 else r1)
        in
          if ip = [] \<and> fp = [] then NaN
          else (case ExponentPart r2 of
                  None \<Rightarrow> NaN
                | Some e \<Rightarrow> Dec (int (digits_value 10 (ip @ fp))) (e - int (length fp))))"

definition StrDecimalLiteral :: "string \<Rightarrow> js_number" where
  "StrDecimalLiteral s =
     (case s of
        [] \<Rightarrow> NaN
      | c # r \<Rightarrow>
          if c = CHR ''+'' then StrUnsignedDecimalLiteral r
          else if c = CHR ''-'' then js_negate (StrUnsignedDecimalLiteral r)
          else StrUnsignedDecimalLiteral s)"

definition StringToNumber :: "string \<Rightarrow> js_number" where
  \<comment> \<open>ECMAScript StringToNumber (the unary \<open>+\<close> on a string), with the exact decimal value
      of a literal in place of its nearest double.\<close>
  "StringToNumber str =
     (let s = js_trim str in
      if s = [] then Dec 0 0
      else if (take 2 s = ''0x'' \<or> take 2 s = ''0X'') \<and> all_in ''0123456789abcdefABCDEF'' (drop 2 s)
        then Dec (int (digits_value 16 (drop 2 s))) 0
      else if (take 2 s = ''0o'' \<or> take 2 s = ''0O'') \<and> all_in ''01234567'' (drop 2 s)
        then Dec (int (digits_value 8 (drop 2 s))) 0
      else if (take 2 s = ''0b'' \<or> take 2 s = ''0B'') \<and> all_in ''01'' (drop 2 s)
        then Dec (int (digits_value 2 (drop 2 s))) 0
      else StrDecimalLiteral s)"

definition js_unary_plus :: "string option \<Rightarrow> js_number" where
  \<comment> \<open>\<open>+v\<close>: \<open>undefined\<close> converts to NaN.\<close>
  "js_unary_plus v = (case v of None \<Rightarrow> NaN | Some s \<Rightarrow> StringToNumber s)"

definition js_ge_nat :: "js_number \<Rightarrow> nat \<Rightarrow> bool" where
  \<comment> \<open>\<open>x >= n\<close> for a natural number n: false on NaN.\<close>
  "js_ge_nat x n =
     (case x of
        NaN \<Rightarrow> False
      | PosInfinity \<Rightarrow> True
      | NegInfinity \<Rightarrow> False
      | Dec m e \<Rightarrow> if 0 \<le> e then int n \<le> m * 10 ^ nat e else int n * 10 ^ nat (- e) \<le> m)"

section \<open>Collaborators of installer.ts\<close>

datatype platform = Windows | Linux | MacOS
  \<comment> \<open>\<open>IS_WINDOWS\<close> and \<open>IS_LINUX\<close> of ./utils; \<open>MacOS\<close> is the platform where both are false.\<close>

definition IS_WINDOWS :: "platform \<Rightarrow> bool" where
  "IS_WINDOWS p = (p = Windows)"

definition IS_LINUX :: "platform \<Rightarrow> bool" where
  "IS_LINUX p = (p = Linux)"

datatype error =
    InvalidFormat string
  | ChannelNotFound string
  | InstallationFailed string
  | TypeError
  | External string
  \<comment> \<open>The source throws plain \<open>Error\<close> objects; each constructor carries the message text.
      \<open>TypeError\<close> is the runtime's error on reading a property of \<open>undefined\<close>;
      \<open>External\<close> is an error raised by a collaborator (HTTP, file system, subprocess).\<close>

record semver =
  valid :: "string \<Rightarrow> bool"
  validRange :: "string \<Rightarrow> bool"
  satisfies :: "string \<Rightarrow> string \<Rightarrow> bool"
  compare :: "string \<Rightarrow> string \<Rightarrow> int"
  \<comment> \<open>The semver package, a dependency: \<open>valid s\<close> and \<open>validRange s\<close> are the truthiness of
      \<open>semver.valid(s)\<close> and \<open>semver.validRange(s)\<close>; \<open>satisfies v r\<close> is
      \<open>new Range(r, {includePrerelease: true}).test(v)\<close>; \<open>compare a b\<close> is
      \<open>new SemVer(a).compare(b)\<close>, one of -1, 0, 1.\<close>

type_synonym release_info = "string option"
  \<comment> \<open>One element of \<open>releases-index\<close>, read through \<open>info['channel-version']\<close>: \<open>None\<close> when
      calling \<open>.split\<close> on it raises (no such field, or not a string).\<close>

record sys =
  platform :: platform
  lib :: semver
  getJson :: "string \<Rightarrow> error + release_info list option"
  path_join :: "string list \<Rightarrow> string"
  dirname :: string
  which :: "string \<Rightarrow> string"
  chmodSync :: "string \<Rightarrow> string \<Rightarrow> error option"
  getExecOutput :: "string \<Rightarrow> string list \<Rightarrow> (string \<rightharpoonup> string) \<Rightarrow> error + (int \<times> string)"
  readdir :: "string \<Rightarrow> error + string list"
  \<comment> \<open>\<open>getJson url\<close>: the HttpClient (with its retries) either throws or answers;
      \<open>Inr None\<close> is a response whose \<open>result\<close> is null or has no \<open>releases-index\<close> array.
      \<open>which tool\<close> is \<open>io.which(tool, false)\<close>: the empty string when the tool is not found.
      \<open>getExecOutput\<close> returns the exit code and the captured standard error.
      \<open>readdir\<close> lists a directory as it is after the installer has run.\<close>

record world =
  env :: "string \<rightharpoonup> string"
  fetched :: "string list"
  warnings :: "string list"
  executed :: "(string \<times> string list) list"
  \<comment> \<open>\<open>process.env\<close>, the URLs requested with \<open>getJson\<close>, the messages of \<open>core.warning\<close>
      and the subprocess invocations, each oldest first.\<close>

section \<open>DotnetVersionResolver\<close>

record DotnetVersion =
  type :: string
  val :: string
  qualityFlag :: bool
  \<comment> \<open>\<open>val\<close> is the field \<open>value\<close> of the source.\<close>

record DotnetVersionResolver =
  inputVersion :: string
  resolvedArgument :: DotnetVersion

definition new_DotnetVersionResolver :: "string \<Rightarrow> DotnetVersionResolver" where
  "new_DotnetVersionResolver version =
     \<lparr>inputVersion = js_trim version,
      resolvedArgument = \<lparr>type = [], val = [], qualityFlag = False\<rparr>\<rparr>"

definition DotNetCoreIndexUrl :: string where
  "DotNetCoreIndexUrl =
     ''https://dotnetcli.azureedge.net/dotnet/release-metadata/releases-index.json''"

definition invalid_format_message :: "string \<Rightarrow> string" where
  "invalid_format_message v =
     [apos] @ ''dotnet-version'' @ [apos] @ '' was supplied in invalid format: '' @ v
     @ ''! Supported syntax: A.B.C, A.B, A.B.x, A, A.x''"

definition channel_not_found_message :: "string option list \<Rightarrow> string" where
  "channel_not_found_message versionParts =
     ''Could not find info for version '' @ js_join ''.'' versionParts
     @ '' at '' @ DotNetCoreIndexUrl"

definition isNumericTag :: "string option \<Rightarrow> bool" where
  \<comment> \<open>\<open>/^\\d+$/.test(versionTag)\<close>\<close>
  "isNumericTag versionTag = all_in ''0123456789'' (js_string versionTag)"

definition js_index_opt :: "'a option list \<Rightarrow> nat \<Rightarrow> 'a option" where
  \<comment> \<open>\<open>xs[i]\<close> on an array whose elements may themselves be \<open>undefined\<close>.\<close>
  "js_index_opt xs i = (if i < length xs then xs ! i else None)"

fun find_release :: "release_info list \<Rightarrow> string option \<Rightarrow> error + string option" where
  \<comment> \<open>\<open>releasesInfo.find(info => info['channel-version'].split('.')[0] === major)\<close>.
      The element found is represented by its \<open>channel-version\<close>; \<open>Inr None\<close> is
      \<open>undefined\<close>: no element matched.\<close>
  "find_release [] major = Inr None"
| "find_release (info # rest) major =
     (case info of
        None \<Rightarrow> Inl TypeError
      | Some cv \<Rightarrow>
          if js_index (js_split CHR ''.'' cv) 0 = major then Inr (Some cv)
          else find_release rest major)"

definition getLatestVersion ::
  "sys \<Rightarrow> string option list \<Rightarrow> world \<Rightarrow> (error + string) \<times> world" where
  "getLatestVersion s versionParts w =
     (let w1 = w\<lparr>fetched := fetched w @ [DotNetCoreIndexUrl]\<rparr> in
      case getJson s DotNetCoreIndexUrl of
        Inl e \<Rightarrow> (Inl e, w1)
      | Inr None \<Rightarrow> (Inl TypeError, w1)
      | Inr (Some releasesInfo) \<Rightarrow>
          (case find_release releasesInfo (js_index_opt versionParts 0) of
             Inl e \<Rightarrow> (Inl e, w1)
           | Inr None \<Rightarrow>
               (Inl (ChannelNotFound (channel_not_found_message versionParts)), w1)
           | Inr (Some cv) \<Rightarrow> (Inr cv, w1)))"

definition resolveVersionInput ::
  "sys \<Rightarrow> DotnetVersionResolver \<Rightarrow> world \<Rightarrow> (error + DotnetVersionResolver) \<times> world" where
  "resolveVersionInput s this w =
     (if \<not> validRange (lib s) (inputVersion this) then
        (Inl (InvalidFormat (invalid_format_message (inputVersion this))), w)
      else if valid (lib s) (inputVersion this) then
        (Inr (this\<lparr>resolvedArgument :=
                 (resolvedArgument this)\<lparr>type := ''version'', val := inputVersion this\<rparr>\<rparr>), w)
      else
        let parts = js_split CHR ''.'' (inputVersion this);
            major = js_index parts 0;
            minor = js_index parts 1;
            flag = js_ge_nat (js_unary_plus major) 6
        in
          if isNumericTag major then
            if isNumericTag minor then
              (Inr (this\<lparr>resolvedArgument :=
                       (resolvedArgument this)\<lparr>type := ''channel'',
                          val := js_string major @ ''.'' @ js_string minor,
                          qualityFlag := flag\<rparr>\<rparr>), w)
            else
              (case getLatestVersion s [major, minor] w of
                 (Inl e, w') \<Rightarrow> (Inl e, w')
               | (Inr v, w') \<Rightarrow>
                   (Inr (this\<lparr>resolvedArgument :=
                            (resolvedArgument this)\<lparr>type := ''channel'', val := v,
                               qualityFlag := flag\<rparr>\<rparr>), w'))
          else
            (Inr (this\<lparr>resolvedArgument := (resolvedArgument this)\<lparr>qualityFlag := flag\<rparr>\<rparr>), w))"

definition createDotNetVersion ::
  "sys \<Rightarrow> DotnetVersionResolver \<Rightarrow> world \<Rightarrow> (error + DotnetVersion) \<times> world" where
  "createDotNetVersion s this w =
     (case resolveVersionInput s this w of
        (Inl e, w') \<Rightarrow> (Inl e, w')
      | (Inr this', w') \<Rightarrow>
          let r = resolvedArgument this' in
          if type r = [] then (Inr r, w')
          else if IS_WINDOWS (platform s) then
            (Inr (r\<lparr>type := (if type r = ''channel'' then ''-Channel'' else ''-Version'')\<rparr>), w')
          else
            (Inr (r\<lparr>type := (if type r = ''channel'' then ''--channel'' else ''--version'')\<rparr>), w'))"

section \<open>InstallDir\<close>

record base_dirs =
  windows :: string
  mac :: string
  linux :: string

definition InstallDir_base :: "(string list \<Rightarrow> string) \<Rightarrow> (string \<rightharpoonup> string) \<Rightarrow> base_dirs" where
  \<comment> \<open>The static \<open>InstallDir.base\<close>, computed once from the environment the module is loaded
      in; \<open>path.join\<close> is the first argument.\<close>
  "InstallDir_base join e =
     \<lparr>windows = join [js_string (e ''PROGRAMFILES''), ''dotnet''],
      mac = join [js_string (e ''HOME''), ''.dotnet''],
      linux = ''/usr/share/dotnet''\<rparr>"

definition new_InstallDir :: "platform \<Rightarrow> base_dirs \<Rightarrow> string \<Rightarrow> world \<Rightarrow> world" where
  \<comment> \<open>The constructor: its only effect is the assignment to \<open>process.env\<close>.\<close>
  "new_InstallDir p b version w =
     (let majorVersion = js_string (js_index (js_split CHR ''.'' version) 0) in
      if IS_WINDOWS p then
        w\<lparr>env := (env w)(''DOTNET_INSTALL_DIR'' \<mapsto> windows b @ [backslash] @ majorVersion)\<rparr>
      else if IS_LINUX p then
        w\<lparr>env := (env w)(''DOTNET_INSTALL_DIR'' \<mapsto> linux b @ ''/'' @ majorVersion)\<rparr>
      else
        w\<lparr>env := (env w)(''DOTNET_INSTALL_DIR'' \<mapsto> mac b @ ''/'' @ majorVersion)\<rparr>)"

definition InstallDir_path :: "platform \<Rightarrow> base_dirs \<Rightarrow> world \<Rightarrow> string" where
  \<comment> \<open>The getter \<open>path\<close>: an unset or empty variable is falsy.\<close>
  "InstallDir_path p b w =
     (case env w ''DOTNET_INSTALL_DIR'' of
        Some d \<Rightarrow>
          if d \<noteq> [] then d
          else if IS_WINDOWS p then windows b
          else if IS_LINUX p then linux b
          else mac b
      | None \<Rightarrow>
          if IS_WINDOWS p then windows b
          else if IS_LINUX p then linux b
          else mac b)"

section \<open>DotnetCoreInstaller\<close>

record DotnetCoreInstaller =
  version :: string
  quality :: string
  \<comment> \<open>\<open>quality\<close> is a \<open>QualityOptions\<close> string; the empty string when the input is not given.
      The field \<open>installDir\<close> holds no data of its own.\<close>

definition new_DotnetCoreInstaller ::
  "platform \<Rightarrow> base_dirs \<Rightarrow> string \<Rightarrow> string \<Rightarrow> world \<Rightarrow> DotnetCoreInstaller \<times> world" where
  "new_DotnetCoreInstaller p b ver q w =
     (\<lparr>version = ver, quality = q\<rparr>, new_InstallDir p b ver w)"

definition quality_warning :: "string \<Rightarrow> string" where
  "quality_warning ver =
     [apos] @ ''dotnet-quality'' @ [apos]
     @ '' input can be used only with .NET SDK version in A.B, A.B.x, A and A.x formats where the major tag is higher than 5. You specified: ''
     @ ver @ ''. '' @ [apos] @ ''dotnet-quality'' @ [apos] @ '' input is ignored.''"

definition setQuality ::
  "platform \<Rightarrow> DotnetCoreInstaller \<Rightarrow> DotnetVersion \<Rightarrow> string list \<Rightarrow> world
     \<Rightarrow> string list \<times> world" where
  "setQuality p this dotnetVersion scriptArguments w =
     (let opt = (if IS_WINDOWS p then ''-Quality'' else ''--quality'') in
      if qualityFlag dotnetVersion then (scriptArguments @ [opt, quality this], w)
      else
        (scriptArguments,
         w\<lparr>warnings := warnings w @ [quality_warning (version this)]\<rparr>))"

definition windowsDefaultOptions :: "string list" where
  "windowsDefaultOptions =
     [''-NoLogo'', ''-Sta'', ''-NoProfile'', ''-NonInteractive'', ''-ExecutionPolicy'',
      ''Unrestricted'', ''-Command'']"

definition escapedScript :: "sys \<Rightarrow> string" where
  "escapedScript s =
     replace_all_char apos [apos, apos]
       (path_join s [dirname s, ''..'', ''externals'',
          (if IS_WINDOWS (platform s) then ''install-dotnet.ps1'' else ''install-dotnet.sh'')])"

definition push_version :: "DotnetVersion \<Rightarrow> string list \<Rightarrow> string list" where
  \<comment> \<open>\<open>if (dotnetVersion.type) scriptArguments.push(dotnetVersion.type, dotnetVersion.value)\<close>\<close>
  "push_version dotnetVersion scriptArguments =
     (if type dotnetVersion \<noteq> [] then scriptArguments @ [type dotnetVersion, val dotnetVersion]
      else scriptArguments)"

definition push_quality ::
  "platform \<Rightarrow> DotnetCoreInstaller \<Rightarrow> DotnetVersion \<Rightarrow> string list \<Rightarrow> world
     \<Rightarrow> string list \<times> world" where
  \<comment> \<open>\<open>if (this.quality) this.setQuality(dotnetVersion, scriptArguments)\<close>\<close>
  "push_quality p this dotnetVersion scriptArguments w =
     (if quality this \<noteq> [] then setQuality p this dotnetVersion scriptArguments w
      else (scriptArguments, w))"

definition push_proxy :: "string \<Rightarrow> string \<Rightarrow> string list \<Rightarrow> world \<Rightarrow> string list" where
  \<comment> \<open>\<open>if (process.env[name] != null) scriptArguments.push(`${flag} ${process.env[name]}`)\<close>\<close>
  "push_proxy name flag scriptArguments w =
     (case env w name of
        None \<Rightarrow> scriptArguments
      | Some v \<Rightarrow> scriptArguments @ [flag @ '' '' @ v])"

definition windows_arguments ::
  "sys \<Rightarrow> DotnetCoreInstaller \<Rightarrow> DotnetVersion \<Rightarrow> world \<Rightarrow> string list \<times> world" where
  \<comment> \<open>The Windows branch of installDotnet up to the proxy arguments.\<close>
  "windows_arguments s this dotnetVersion w =
     (let a0 = [''&'', [apos] @ escapedScript s @ [apos], ''-SkipNonVersionedFiles''];
          a1 = push_version dotnetVersion a0;
          (a2, w') = push_quality (platform s) this dotnetVersion a1 w;
          a3 = push_proxy ''https_proxy'' ''-ProxyAddress'' a2 w';
          a4 = push_proxy ''no_proxy'' ''-ProxyBypassList'' a3 w'
      in (a4, w'))"

definition unix_arguments ::
  "sys \<Rightarrow> DotnetCoreInstaller \<Rightarrow> DotnetVersion \<Rightarrow> world \<Rightarrow> string list \<times> world" where
  \<comment> \<open>The other branch of installDotnet from \<open>scriptArguments = [...]\<close> on.\<close>
  "unix_arguments s this dotnetVersion w =
     (let a0 = [''--skip-non-versioned-files''];
          a1 = push_version dotnetVersion a0
      in push_quality (platform s) this dotnetVersion a1 w)"

definition which_checked :: "sys \<Rightarrow> string \<Rightarrow> error + string" where
  \<comment> \<open>\<open>io.which(tool, true)\<close>: throws when the tool is not found.\<close>
  "which_checked s tool =
     (if which s tool = [] then Inl (External (''Unable to locate executable file: '' @ tool))
      else Inr (which s tool))"

definition prepare_script ::
  "sys \<Rightarrow> DotnetCoreInstaller \<Rightarrow> DotnetVersion \<Rightarrow> world
     \<Rightarrow> (error + string \<times> string list) \<times> world" where
  \<comment> \<open>Lines 203 to 237 of installDotnet: the script path and the script arguments.\<close>
  "prepare_script s this dotnetVersion w =
     (if IS_WINDOWS (platform s) then
        (case windows_arguments s this dotnetVersion w of
           (scriptArguments, w') \<Rightarrow>
             if which s ''pwsh'' \<noteq> [] then
               (Inr (which s ''pwsh'', windowsDefaultOptions @ scriptArguments), w')
             else
               (case which_checked s ''powershell'' of
                  Inl e \<Rightarrow> (Inl e, w')
                | Inr scriptPath \<Rightarrow>
                    (Inr (scriptPath, windowsDefaultOptions @ scriptArguments), w')))
      else
        (case chmodSync s (escapedScript s) ''777'' of
           Some e \<Rightarrow> (Inl e, w)
         | None \<Rightarrow>
             (case which_checked s (escapedScript s) of
                Inl e \<Rightarrow> (Inl e, w)
              | Inr scriptPath \<Rightarrow>
                  (case unix_arguments s this dotnetVersion w of
                     (scriptArguments, w') \<Rightarrow> (Inr (scriptPath, scriptArguments), w')))))"

definition maxSatisfying :: "semver \<Rightarrow> string list \<Rightarrow> string \<Rightarrow> string option" where
  \<comment> \<open>\<open>semver.maxSatisfying(versions, range, {includePrerelease: true})\<close> of the semver
      package: one pass over the versions, keeping the first of the greatest that pass
      the range test; \<open>None\<close> is null.\<close>
  "maxSatisfying l versions rng =
     foldl (\<lambda>mx v.
              if satisfies l v rng then
                (case mx of
                   None \<Rightarrow> Some v
                 | Some m \<Rightarrow> if compare l m v = - 1 then Some v else Some m)
              else mx)
       None versions"

definition outputDotnetVersion ::
  "sys \<Rightarrow> base_dirs \<Rightarrow> string \<Rightarrow> world \<Rightarrow> error + string option" where
  \<comment> \<open>The non-null assertion \<open>!\<close> has no effect at run time: null is returned as it is.\<close>
  "outputDotnetVersion s b ver w =
     (case readdir s
             (path_join s [replace_all_char apos [] (InstallDir_path (platform s) b w), ''sdk'']) of
        Inl e \<Rightarrow> Inl e
      | Inr versionsOnRunner \<Rightarrow> Inr (maxSatisfying (lib s) versionsOnRunner ver))"

fun show_nat :: "nat \<Rightarrow> string" where
  "show_nat n =
     (if n < 10 then [char_of (48 + n)] else show_nat (n div 10) @ [char_of (48 + n mod 10)])"

declare show_nat.simps [simp del]

definition show_int :: "int \<Rightarrow> string" where
  "show_int i = (if i < 0 then ''-'' @ show_nat (nat (- i)) else show_nat (nat i))"

definition installDotnet ::
  "sys \<Rightarrow> base_dirs \<Rightarrow> DotnetCoreInstaller \<Rightarrow> world \<Rightarrow> (error + string option) \<times> world" where
  "installDotnet s b this w =
     (case createDotNetVersion s (new_DotnetVersionResolver (version this)) w of
        (Inl e, w1) \<Rightarrow> (Inl e, w1)
      | (Inr dotnetVersion, w1) \<Rightarrow>
          (case prepare_script s this dotnetVersion w1 of
             (Inl e, w2) \<Rightarrow> (Inl e, w2)
           | (Inr (scriptPath, scriptArguments), w2) \<Rightarrow>
               let cmd = [CHR 0x22] @ scriptPath @ [CHR 0x22];
                   w3 = w2\<lparr>executed := executed w2 @ [(cmd, scriptArguments)]\<rparr>
               in
                 (case getExecOutput s cmd scriptArguments (env w2) of
                    Inl e \<Rightarrow> (Inl e, w3)
                  | Inr (exitCode, stderr) \<Rightarrow>
                      if exitCode \<noteq> 0 then
                        (Inl (InstallationFailed
                           (''Failed to install dotnet, exit code: '' @ show_int exitCode
                            @ ''. '' @ stderr)), w3)
                      else (outputDotnetVersion s b (val dotnetVersion) w3, w3))))"

section \<open>A small instance of the semver interface\<close>

text \<open>
  The concrete examples below need a \<open>semver\<close> to run on. \<open>plain_semver\<close> recognises the
  version forms \<open>A.B.C\<close> and \<open>A.B.C-pre\<close> and the range forms named in the source's error
  message (\<open>A.B.C\<close>, \<open>A.B\<close>, \<open>A.B.x\<close>, \<open>A\<close>, \<open>A.x\<close>) together with the empty range and
  the wildcard alone; on these it follows the package: version precedence, and ranges
  tested with \<open>includePrerelease\<close>. Every other string is invalid for it.
\<close>

definition numeric_identifier :: "string \<Rightarrow> bool" where
  \<comment> \<open>\<open>0|[1-9]\\d*\<close>\<close>
  "numeric_identifier s = (all_in ''0123456789'' s \<and> (s = ''0'' \<or> take 1 s \<noteq> ''0''))"

definition prerelease_identifier :: "string \<Rightarrow> bool" where
  "prerelease_identifier s =
     (numeric_identifier s \<or>
      (all_in ''0123456789abcdefghijklmnopqrstuvwxyzABCDEFGHIJKLMNOPQRSTUVWXYZ-'' s
       \<and> \<not> all_in ''0123456789'' s))"

type_synonym plain_version = "nat \<times> nat \<times> nat \<times> string list"

definition parse_version :: "string \<Rightarrow> plain_version option" where
  "parse_version s =
     (let core = takeWhile (\<lambda>c. c \<noteq> CHR ''-'') s;
          rest = dropWhile (\<lambda>c. c \<noteq> CHR ''-'') s;
          pre = (if rest = [] then [] else js_split CHR ''.'' (tl rest))
      in case js_split CHR ''.'' core of
           [a, b, c] \<Rightarrow>
             if numeric_identifier a \<and> numeric_identifier b \<and> numeric_identifier c
                \<and> list_all prerelease_identifier pre
             then Some (digits_value 10 a, digits_value 10 b, digits_value 10 c, pre)
             else None
         | _ \<Rightarrow> None)"

fun str_less :: "string \<Rightarrow> string \<Rightarrow> bool" where
  \<comment> \<open>\<open>a < b\<close> on strings: by code units.\<close>
  "str_less [] [] = False"
| "str_less [] (y # ys) = True"
| "str_less (x # xs) [] = False"
| "str_less (x # xs) (y # ys) =
     ((of_char x :: nat) < of_char y \<or> (x = y \<and> str_less xs ys))"

definition compareIdentifiers :: "string \<Rightarrow> string \<Rightarrow> int" where
  "compareIdentifiers a b =
     (let anum = all_in ''0123456789'' a; bnum = all_in ''0123456789'' b in
      if anum \<and> bnum then
        (if digits_value 10 a = digits_value 10 b then 0
         else if digits_value 10 a < digits_value 10 b then - 1 else 1)
      else if a = b then 0
      else if anum \<and> \<not> bnum then - 1
      else if bnum \<and> \<not> anum then 1
      else if str_less a b then - 1 else 1)"

fun comparePreLoop :: "string list \<Rightarrow> string list \<Rightarrow> int" where
  "comparePreLoop [] [] = 0"
| "comparePreLoop (a # as) [] = 1"
| "comparePreLoop [] (b # bs) = - 1"
| "comparePreLoop (a # as) (b # bs) =
     (if a = b then comparePreLoop as bs else compareIdentifiers a b)"

definition comparePre :: "string list \<Rightarrow> string list \<Rightarrow> int" where
  "comparePre p q =
     (if p \<noteq> [] \<and> q = [] then - 1
      else if p = [] \<and> q \<noteq> [] then 1
      else if p = [] \<and> q = [] then 0
      else comparePreLoop p q)"

definition compare_nat :: "nat \<Rightarrow> nat \<Rightarrow> int" where
  "compare_nat a b = (if a = b then 0 else if a < b then - 1 else 1)"

definition compare_versions :: "plain_version \<Rightarrow> plain_version \<Rightarrow> int" where
  "compare_versions x y =
     (case (x, y) of
        ((a1, b1, c1, p1), (a2, b2, c2, p2)) \<Rightarrow>
          if compare_nat a1 a2 \<noteq> 0 then compare_nat a1 a2
          else if compare_nat b1 b2 \<noteq> 0 then compare_nat b1 b2
          else if compare_nat c1 c2 \<noteq> 0 then compare_nat c1 c2
          else comparePre p1 p2)"

definition plain_compare :: "string \<Rightarrow> string \<Rightarrow> int" where
  \<comment> \<open>The package throws on a string that is no version; 0 stands for that here.\<close>
  "plain_compare a b =
     (case (parse_version a, parse_version b) of
        (Some x, Some y) \<Rightarrow> compare_versions x y
      | _ \<Rightarrow> 0)"

datatype plain_range = AnyVersion | MajorLine nat | MinorLine nat nat | ExactVersion plain_version

definition is_x :: "string \<Rightarrow> bool" where
  "is_x s = (s = ''x'' \<or> s = ''X'' \<or> s = ''*'')"

definition parse_range :: "string \<Rightarrow> plain_range option" where
  "parse_range r =
     (if r = [] then Some AnyVersion
      else
        (case parse_version r of
           Some v \<Rightarrow> Some (ExactVersion v)
         | None \<Rightarrow>
             (case js_split CHR ''.'' r of
                [a] \<Rightarrow>
                  if is_x a then Some AnyVersion
                  else if numeric_identifier a then Some (MajorLine (digits_value 10 a))
                  else None
              | [a, b] \<Rightarrow>
                  if numeric_identifier a \<and> is_x b then Some (MajorLine (digits_value 10 a))
                  else if numeric_identifier a \<and> numeric_identifier b
                    then Some (MinorLine (digits_value 10 a) (digits_value 10 b))
                  else None
              | [a, b, c] \<Rightarrow>
                  if numeric_identifier a \<and> numeric_identifier b \<and> is_x c
                    then Some (MinorLine (digits_value 10 a) (digits_value 10 b))
                  else None
              | _ \<Rightarrow> None)))"

definition plain_satisfies :: "string \<Rightarrow> string \<Rightarrow> bool" where
  \<comment> \<open>With \<open>includePrerelease\<close>, the range \<open>A.B\<close> is \<open>>=A.B.0-0 <A.(B+1).0-0\<close> and \<open>A\<close> is
      \<open>>=A.0.0-0 <(A+1).0.0-0\<close>: every version of the line, prereleases included.\<close>
  "plain_satisfies v r =
     (case (parse_version v, parse_range r) of
        (Some (a, b, c, p), Some AnyVersion) \<Rightarrow> True
      | (Some (a, b, c, p), Some (MajorLine a')) \<Rightarrow> a = a'
      | (Some (a, b, c, p), Some (MinorLine a' b')) \<Rightarrow> a = a' \<and> b = b'
      | (Some (a, b, c, p), Some (ExactVersion y)) \<Rightarrow> compare_versions (a, b, c, p) y = 0
      | _ \<Rightarrow> False)"

definition plain_semver :: semver where
  "plain_semver =
     \<lparr>valid = (\<lambda>s. parse_version s \<noteq> None),
      validRange = (\<lambda>s. parse_range s \<noteq> None),
      satisfies = plain_satisfies,
      compare = plain_compare\<rparr>"

section \<open>A concrete system for the examples\<close>

definition example_sys ::
  "platform \<Rightarrow> (error + release_info list option) \<Rightarrow> string \<Rightarrow> string list \<Rightarrow> sys" where
  \<comment> \<open>The release index answers with \<open>index\<close>; the directory \<open>sdk_dir\<close> holds \<open>names\<close> and no
      other directory exists; every tool is found and the installer exits with 0.\<close>
  "example_sys p index sdk_dir names =
     \<lparr>platform = p,
      lib = plain_semver,
      getJson = (\<lambda>url. if url = DotNetCoreIndexUrl then index else Inl (External ''ENOTFOUND'')),
      path_join = (\<lambda>parts. js_join ''/'' (map Some parts)),
      dirname = ''/action/dist'',
      which = (\<lambda>tool. tool),
      chmodSync = (\<lambda>file mode. None),
      getExecOutput = (\<lambda>cmd args e. Inr (0, [])),
      readdir = (\<lambda>dir. if dir = sdk_dir then Inr names else Inl (External ''ENOENT''))\<rparr>"

definition example_world :: "(string \<times> string) list \<Rightarrow> world" where
  \<comment> \<open>A fresh process with the given environment variables.\<close>
  "example_world vars = \<lparr>env = map_of vars, fetched = [], warnings = [], executed = []\<rparr>"

definition example_base :: base_dirs where
  "example_base = \<lparr>windows = ''C:/Program Files/dotnet'', mac = ''/Users/runner/.dotnet'',
                    linux = ''/usr/share/dotnet''\<rparr>"

section \<open>Facts about splitting and number conversion\<close>

lemma js_split_nonempty: "js_split c s \<noteq> []"
  by (induction s) (auto split: list.splits)

lemma js_split_no_sep: "c \<notin> set a \<Longrightarrow> js_split c a = [a]"
  by (induction a) auto

lemma js_split_first: "c \<notin> set a \<Longrightarrow> js_split c (a @ c # rest) = a # js_split c rest"
  by (induction a) auto

lemma all_in_mem: "all_in alphabet s \<Longrightarrow> x \<in> set s \<Longrightarrow> x \<in> set alphabet"
  by (auto simp: all_in_def list_all_iff)

lemma digits_no_dot: "all_in ''0123456789'' a \<Longrightarrow> CHR ''.'' \<notin> set a"
  by (auto dest: all_in_mem)

lemma digits_trim: assumes "all_in ''0123456789'' a" shows "js_trim a = a"
proof -
  have ns: "\<And>x. x \<in> set a \<Longrightarrow> \<not> is_js_space x"
    using assms by (auto dest!: all_in_mem simp: is_js_space_def)
  have dw: "\<And>xs. (\<And>x. x \<in> set xs \<Longrightarrow> \<not> is_js_space x) \<Longrightarrow> dropWhile is_js_space xs = xs"
    by (case_tac xs) auto
  have "dropWhile is_js_space a = a"
    using ns by (rule dw)
  moreover have "dropWhile is_js_space (rev a) = rev a"
    using ns by (intro dw) simp
  ultimately show ?thesis by (simp add: js_trim_def)
qed

lemma take2_mem: "take 2 a = [x, y] \<Longrightarrow> y \<in> set a"
  by (metis in_set_takeD list.set_intros(1) list.set_intros(2))

lemma digits_takeWhile: "all_in ''0123456789'' a \<Longrightarrow> takeWhile is_digit a = a"
  by (auto simp: all_in_def list_all_iff is_digit_def)

lemma digits_dropWhile: "all_in ''0123456789'' a \<Longrightarrow> dropWhile is_digit a = []"
  by (auto simp: all_in_def list_all_iff is_digit_def)

lemma digits_StringToNumber:
  assumes "all_in ''0123456789'' a"
  shows "StringToNumber a = Dec (int (digits_value 10 a)) 0"
proof -
  have ne: "a \<noteq> []" using assms by (simp add: all_in_def)
  have nx: "\<And>x y. take 2 a = [x, y] \<Longrightarrow> y \<in> set ''0123456789''"
    using assms by (blast dest: take2_mem all_in_mem)
  have pre: "take 2 a \<noteq> ''0x''" "take 2 a \<noteq> ''0X''" "take 2 a \<noteq> ''0o''" "take 2 a \<noteq> ''0O''"
    "take 2 a \<noteq> ''0b''" "take 2 a \<noteq> ''0B''"
    using nx by force+
  obtain c r where a: "a = c # r" using ne by (cases a) auto
  have c: "c \<in> set ''0123456789''" using assms a by (auto dest: all_in_mem)
  have sd: "StrDecimalLiteral a = StrUnsignedDecimalLiteral a"
    using c by (auto simp: StrDecimalLiteral_def a)
  have ninf: "a \<noteq> ''Infinity''" using c a by auto
  have "StrUnsignedDecimalLiteral a = Dec (int (digits_value 10 a)) 0"
    using ninf ne by (simp add: StrUnsignedDecimalLiteral_def digits_takeWhile[OF assms]
        digits_dropWhile[OF assms] ExponentPart_def)
  then show ?thesis
    using pre ne sd by (simp add: StringToNumber_def digits_trim[OF assms])
qed

lemma numeric_ge: "all_in ''0123456789'' a \<Longrightarrow> js_ge_nat (js_unary_plus (Some a)) n = (n \<le> digits_value 10 a)"
  by (simp add: js_unary_plus_def digits_StringToNumber js_ge_nat_def)


section \<open>Version resolution\<close>

text \<open>
  Claim C9. For every input whose trimmed form is not a valid version or version range
  (\<open>semver.validRange\<close> is falsy), resolution fails with the InvalidFormat error carrying
  the source's message, produces no directive and leaves the process state as it was.
\<close>

theorem resolve_invalid_format:
  assumes "\<not> validRange (lib s) (js_trim raw)"
  shows "resolveVersionInput s (new_DotnetVersionResolver raw) w
           = (Inl (InvalidFormat (invalid_format_message (js_trim raw))), w)
         \<and> createDotNetVersion s (new_DotnetVersionResolver raw) w
           = (Inl (InvalidFormat (invalid_format_message (js_trim raw))), w)"
  using assms by (simp add: resolveVersionInput_def createDotNetVersion_def new_DotnetVersionResolver_def)

theorem resolve_invalid_format_witness:
  "\<not> validRange (lib (example_sys Linux (Inr None) [] [])) (js_trim ''not-a-version'')
   \<and> (\<exists>m. createDotNetVersion (example_sys Linux (Inr None) [] []) (new_DotnetVersionResolver ''not-a-version'') (example_world [])
      = (Inl (InvalidFormat m), example_world []))"
proof -
  have h: "\<not> validRange (lib (example_sys Linux (Inr None) [] [])) (js_trim ''not-a-version'')"
    by code_simp
  show ?thesis
    using h resolve_invalid_format [OF h, of "example_world []"] by blast
qed

text \<open>
  Claim C8. For every input whose trimmed form is a valid exact version, resolution
  returns the directive of type \<open>version\<close> (rendered as the version flag of the platform by
  \<open>createDotNetVersion\<close>), with the trimmed input as value and the quality flag false,
  whatever the major version is.
\<close>

theorem resolve_exact:
  assumes "valid (lib s) (js_trim raw)" and "validRange (lib s) (js_trim raw)"
  shows "resolveVersionInput s (new_DotnetVersionResolver raw) w
           = (Inr \<lparr>inputVersion = js_trim raw,
                   resolvedArgument = \<lparr>type = ''version'', val = js_trim raw, qualityFlag = False\<rparr>\<rparr>, w)
         \<and> createDotNetVersion s (new_DotnetVersionResolver raw) w
           = (Inr \<lparr>type = (if IS_WINDOWS (platform s) then ''-Version'' else ''--version''),
                   val = js_trim raw, qualityFlag = False\<rparr>, w)"
  using assms by (simp add: resolveVersionInput_def createDotNetVersion_def new_DotnetVersionResolver_def)

theorem resolve_exact_witness:
  "valid (lib (example_sys Linux (Inr None) [] [])) (js_trim ''8.0.100'')
   \<and> validRange (lib (example_sys Linux (Inr None) [] [])) (js_trim ''8.0.100'')
   \<and> createDotNetVersion (example_sys Linux (Inr None) [] []) (new_DotnetVersionResolver ''8.0.100'') (example_world [])
      = (Inr \<lparr>type = ''--version'', val = ''8.0.100'', qualityFlag = False\<rparr>, example_world [])"
proof -
  have h1: "valid (lib (example_sys Linux (Inr None) [] [])) (js_trim ''8.0.100'')"
    by code_simp
  have h2: "validRange (lib (example_sys Linux (Inr None) [] [])) (js_trim ''8.0.100'')"
    by code_simp
  have t: "js_trim ''8.0.100'' = ''8.0.100''" by code_simp
  have p: "platform (example_sys Linux (Inr None) [] []) = Linux" by (simp add: example_sys_def)
  show ?thesis
    using h1 h2 resolve_exact [OF h1 h2, of "example_world []"]
    by (simp add: t p IS_WINDOWS_def)
qed


lemma isNumericTag_Some: "isNumericTag (Some a) = all_in ''0123456789'' a"
  by (simp add: isNumericTag_def js_string_def)

lemma split_two:
  assumes "all_in ''0123456789'' A" "all_in ''0123456789'' B"
    and "inp = A @ ''.'' @ B \<or> (\<exists>rest. inp = A @ ''.'' @ B @ ''.'' @ rest)"
  shows "js_index (js_split CHR ''.'' inp) 0 = Some A \<and> js_index (js_split CHR ''.'' inp) 1 = Some B"
  using assms(3)
proof
  assume "inp = A @ ''.'' @ B"
  then have "js_split CHR ''.'' inp = [A, B]"
    using js_split_first[OF digits_no_dot[OF assms(1)], of B] js_split_no_sep[OF digits_no_dot[OF assms(2)]]
    by simp
  then show ?thesis by (simp add: js_index_def)
next
  assume "\<exists>rest. inp = A @ ''.'' @ B @ ''.'' @ rest"
  then obtain rest where "inp = A @ ''.'' @ B @ ''.'' @ rest" by blast
  then have "js_split CHR ''.'' inp = A # B # js_split CHR ''.'' rest"
    using js_split_first[OF digits_no_dot[OF assms(1)], of "B @ ''.'' @ rest"]
      js_split_first[OF digits_no_dot[OF assms(2)], of rest]
    by simp
  then show ?thesis by (simp add: js_index_def)
qed

text \<open>
  Claim C4. For every input whose trimmed form is \<open>A.B\<close> or \<open>A.B.\<close>\<^emph>\<open>rest\<close> with A and B
  non-empty digit strings (B may be \<open>0\<close>), that passes the range validation and is not an
  exact version, resolution returns the directive of type \<open>channel\<close> with value \<open>A.B\<close>;
  the release index is not fetched (the process state is unchanged), and the quality
  flag is true exactly when the decimal value of A is at least 6.
\<close>

theorem resolve_minor_channel:
  assumes "isNumericTag (Some A)" and "isNumericTag (Some B)"
    and "js_trim raw = A @ ''.'' @ B \<or> (\<exists>rest. js_trim raw = A @ ''.'' @ B @ ''.'' @ rest)"
    and "validRange (lib s) (js_trim raw)" and "\<not> valid (lib s) (js_trim raw)"
  shows "resolveVersionInput s (new_DotnetVersionResolver raw) w
           = (Inr \<lparr>inputVersion = js_trim raw,
                   resolvedArgument = \<lparr>type = ''channel'', val = A @ ''.'' @ B,
                                       qualityFlag = (6 \<le> digits_value 10 A)\<rparr>\<rparr>, w)
         \<and> fetched (snd (resolveVersionInput s (new_DotnetVersionResolver raw) w)) = fetched w"
proof -
  have a: "all_in ''0123456789'' A" and b: "all_in ''0123456789'' B"
    using assms(1,2) by (simp_all add: isNumericTag_Some)
  have sp: "js_index (js_split CHR ''.'' (js_trim raw)) 0 = Some A"
    "js_index (js_split CHR ''.'' (js_trim raw)) 1 = Some B"
    using split_two[OF a b assms(3)] by simp_all
  have sp': "js_index (js_split CHR ''.'' (js_trim raw)) (Suc 0) = Some B"
    using sp(2) by simp
  have "resolveVersionInput s (new_DotnetVersionResolver raw) w
           = (Inr \<lparr>inputVersion = js_trim raw,
                   resolvedArgument = \<lparr>type = ''channel'', val = A @ ''.'' @ B,
                                       qualityFlag = (6 \<le> digits_value 10 A)\<rparr>\<rparr>, w)"
    using assms(1,2,4,5)
    by (simp add: resolveVersionInput_def new_DotnetVersionResolver_def sp sp' Let_def
        numeric_ge[OF a] js_string_def)
  then show ?thesis by simp
qed

theorem resolve_minor_channel_witness:
  "isNumericTag (Some ''6'') \<and> isNumericTag (Some ''0'')
   \<and> validRange (lib (example_sys Linux (Inr None) [] [])) (js_trim ''6.0.x'')
   \<and> \<not> valid (lib (example_sys Linux (Inr None) [] [])) (js_trim ''6.0.x'')
   \<and> resolveVersionInput (example_sys Linux (Inr None) [] []) (new_DotnetVersionResolver ''6.0.x'') (example_world [])
      = (Inr \<lparr>inputVersion = ''6.0.x'',
               resolvedArgument = \<lparr>type = ''channel'', val = ''6.0'', qualityFlag = True\<rparr>\<rparr>,
         example_world [])"
proof -
  have n1: "isNumericTag (Some ''6'')" by code_simp
  have n2: "isNumericTag (Some ''0'')" by code_simp
  have t: "js_trim ''6.0.x'' = ''6.0.x''" by code_simp
  have f: "js_trim ''6.0.x'' = ''6'' @ ''.'' @ ''0'' \<or> (\<exists>rest. js_trim ''6.0.x'' = ''6'' @ ''.'' @ ''0'' @ ''.'' @ rest)"
    by (simp add: t)
  have h1: "validRange (lib (example_sys Linux (Inr None) [] [])) (js_trim ''6.0.x'')"
    by code_simp
  have h2: "\<not> valid (lib (example_sys Linux (Inr None) [] [])) (js_trim ''6.0.x'')"
    by code_simp
  have v: "(6 \<le> digits_value 10 ''6'') = True" by code_simp
  show ?thesis
    using n1 n2 h1 h2 resolve_minor_channel [OF n1 n2 f h1 h2, of "example_world []"]
    by (simp add: t v)
qed


lemma find_release_wellformed:
  "find_release (map Some cvs) (Some A)
     = Inr (find (\<lambda>cv. js_index (js_split CHR ''.'' cv) 0 = Some A) cvs)"
  by (induction cvs) auto

lemma isNumericTag_None: "\<not> isNumericTag None"
  by (simp add: isNumericTag_def js_string_def all_in_def)

lemma split_major:
  assumes "all_in ''0123456789'' A"
    and "inp = A \<or> (\<exists>rest. inp = A @ ''.'' @ rest
            \<and> \<not> isNumericTag (js_index (js_split CHR ''.'' rest) 0))"
  shows "js_index (js_split CHR ''.'' inp) 0 = Some A
         \<and> \<not> isNumericTag (js_index (js_split CHR ''.'' inp) (Suc 0))"
  using assms(2)
proof
  assume "inp = A"
  then have "js_split CHR ''.'' inp = [A]"
    using js_split_no_sep[OF digits_no_dot[OF assms(1)]] by simp
  then show ?thesis by (simp add: js_index_def isNumericTag_None)
next
  assume "\<exists>rest. inp = A @ ''.'' @ rest \<and> \<not> isNumericTag (js_index (js_split CHR ''.'' rest) 0)"
  then obtain rest where r: "inp = A @ ''.'' @ rest"
    and n: "\<not> isNumericTag (js_index (js_split CHR ''.'' rest) 0)" by blast
  have "js_split CHR ''.'' inp = A # js_split CHR ''.'' rest"
    using r js_split_first[OF digits_no_dot[OF assms(1)], of rest] by simp
  then show ?thesis using n js_split_nonempty[of "CHR ''.''" rest] by (simp add: js_index_def)
qed

text \<open>
  Claim C5. For every input whose trimmed form is a non-empty digit string A, alone or
  followed by \<open>.\<close> and a second component that is not a digit string (such as \<open>x\<close>), that
  passes the range validation and is not an exact version: when the release index answers
  with a list of entries that each carry a \<open>channel-version\<close> string, resolution requests
  the index URL exactly once and returns the \<open>channel-version\<close> of the first entry whose
  first component equals A (as a channel directive whose quality flag is true exactly when
  A is at least 6); it fails exactly when no entry matches, and then with the error whose
  message names the requested version (A, a dot and the second component if any) and
  the index URL.
\<close>

theorem resolve_major_channel:
  assumes "isNumericTag (Some A)"
    and "js_trim raw = A \<or> (\<exists>rest. js_trim raw = A @ ''.'' @ rest
            \<and> \<not> isNumericTag (js_index (js_split CHR ''.'' rest) 0))"
    and "validRange (lib s) (js_trim raw)" and "\<not> valid (lib s) (js_trim raw)"
    and "getJson s DotNetCoreIndexUrl = Inr (Some (map Some cvs))"
  shows "resolveVersionInput s (new_DotnetVersionResolver raw) w
           = ((case find (\<lambda>cv. js_index (js_split CHR ''.'' cv) 0 = Some A) cvs of
                 Some cv \<Rightarrow>
                   Inr \<lparr>inputVersion = js_trim raw,
                        resolvedArgument = \<lparr>type = ''channel'', val = cv,
                                            qualityFlag = (6 \<le> digits_value 10 A)\<rparr>\<rparr>
               | None \<Rightarrow>
                   Inl (ChannelNotFound
                     (''Could not find info for version '' @ A @ ''.''
                      @ (case js_index (js_split CHR ''.'' (js_trim raw)) 1 of
                           None \<Rightarrow> [] | Some m \<Rightarrow> m)
                      @ '' at '' @ DotNetCoreIndexUrl))),
              w\<lparr>fetched := fetched w @ [DotNetCoreIndexUrl]\<rparr>)"
proof -
  have a: "all_in ''0123456789'' A"
    using assms(1) by (simp add: isNumericTag_Some)
  have sp: "js_index (js_split CHR ''.'' (js_trim raw)) 0 = Some A"
    "\<not> isNumericTag (js_index (js_split CHR ''.'' (js_trim raw)) (Suc 0))"
    using split_major[OF a assms(2)] by simp_all
  have g: "getLatestVersion s [Some A, js_index (js_split CHR ''.'' (js_trim raw)) (Suc 0)] w
        = ((case find (\<lambda>cv. js_index (js_split CHR ''.'' cv) 0 = Some A) cvs of
              Some cv \<Rightarrow> Inr cv
            | None \<Rightarrow> Inl (ChannelNotFound
                     (''Could not find info for version '' @ A @ ''.''
                      @ (case js_index (js_split CHR ''.'' (js_trim raw)) (Suc 0) of
                           None \<Rightarrow> [] | Some m \<Rightarrow> m)
                      @ '' at '' @ DotNetCoreIndexUrl))),
           w\<lparr>fetched := fetched w @ [DotNetCoreIndexUrl]\<rparr>)"
    by (simp add: getLatestVersion_def assms(5) find_release_wellformed js_index_opt_def
        channel_not_found_message_def Let_def split: option.splits)
  show ?thesis
    using assms(1,3,4) sp(2)
    by (simp add: resolveVersionInput_def new_DotnetVersionResolver_def sp(1) g Let_def
        numeric_ge[OF a] split: option.splits)
qed


theorem resolve_major_channel_witness:
  "isNumericTag (Some ''3'')
   \<and> js_trim ''3.x'' = ''3'' @ ''.'' @ ''x''
   \<and> \<not> isNumericTag (js_index (js_split CHR ''.'' ''x'') 0)
   \<and> validRange (lib (example_sys Linux (Inr (Some (map Some [''8.0'', ''3.1'', ''3.0'']))) [] []))
         (js_trim ''3.x'')
   \<and> \<not> valid (lib (example_sys Linux (Inr (Some (map Some [''8.0'', ''3.1'', ''3.0'']))) [] []))
         (js_trim ''3.x'')
   \<and> getJson (example_sys Linux (Inr (Some (map Some [''8.0'', ''3.1'', ''3.0'']))) [] [])
         DotNetCoreIndexUrl = Inr (Some (map Some [''8.0'', ''3.1'', ''3.0'']))
   \<and> resolveVersionInput (example_sys Linux (Inr (Some (map Some [''8.0'', ''3.1'', ''3.0'']))) [] [])
         (new_DotnetVersionResolver ''3.x'') (example_world [])
       = (Inr \<lparr>inputVersion = ''3.x'',
                resolvedArgument = \<lparr>type = ''channel'', val = ''3.1'', qualityFlag = False\<rparr>\<rparr>,
          (example_world [])\<lparr>fetched := [DotNetCoreIndexUrl]\<rparr>)"
proof -
  let ?S = "example_sys Linux (Inr (Some (map Some [''8.0'', ''3.1'', ''3.0'']))) [] []"
  have n: "isNumericTag (Some ''3'')" by code_simp
  have t: "js_trim ''3.x'' = ''3.x''" by code_simp
  have m: "\<not> isNumericTag (js_index (js_split CHR ''.'' ''x'') 0)" by code_simp
  have f: "js_trim ''3.x'' = ''3'' \<or> (\<exists>rest. js_trim ''3.x'' = ''3'' @ ''.'' @ rest
            \<and> \<not> isNumericTag (js_index (js_split CHR ''.'' rest) 0))"
    using m t by auto
  have h1: "validRange (lib ?S) (js_trim ''3.x'')" by code_simp
  have h2: "\<not> valid (lib ?S) (js_trim ''3.x'')" by code_simp
  have g: "getJson ?S DotNetCoreIndexUrl = Inr (Some (map Some [''8.0'', ''3.1'', ''3.0'']))"
    by (simp add: example_sys_def)
  have fd: "find (\<lambda>cv. js_index (js_split CHR ''.'' cv) 0 = Some ''3'') [''8.0'', ''3.1'', ''3.0'']
              = Some ''3.1''"
    by code_simp
  have v: "(6 \<le> digits_value 10 ''3'') = False" by code_simp
  have fw: "fetched (example_world []) = []" by (simp add: example_world_def)
  have r: "resolveVersionInput ?S (new_DotnetVersionResolver ''3.x'') (example_world [])
       = (Inr \<lparr>inputVersion = ''3.x'',
                resolvedArgument = \<lparr>type = ''channel'', val = ''3.1'', qualityFlag = False\<rparr>\<rparr>,
          (example_world [])\<lparr>fetched := [DotNetCoreIndexUrl]\<rparr>)"
    by (simp only: resolve_major_channel [OF n f h1 h2 g, of "example_world []"] fd)
       (simp add: t v fw)
  show ?thesis
    using n m h1 h2 g r by (simp add: t)
qed


text \<open>An index without an entry of major 9: the message of the error.\<close>

lemma resolve_major_missing_example:
  "fst (resolveVersionInput (example_sys Linux (Inr (Some (map Some [''8.0'', ''3.1'']))) [] [])
         (new_DotnetVersionResolver ''9'') (example_world []))
     = Inl (ChannelNotFound
         ''Could not find info for version 9. at https://dotnetcli.azureedge.net/dotnet/release-metadata/releases-index.json'')"
  by code_simp

section \<open>What the installer changes in the process state\<close>

lemma getLatestVersion_world:
  "snd (getLatestVersion s parts w) = w\<lparr>fetched := fetched w @ [DotNetCoreIndexUrl]\<rparr>"
  by (simp add: getLatestVersion_def Let_def split: sum.splits option.splits)

lemma resolveVersionInput_world:
  "snd (resolveVersionInput s r w) = w
   \<or> snd (resolveVersionInput s r w) = w\<lparr>fetched := fetched w @ [DotNetCoreIndexUrl]\<rparr>"
proof -
  have "\<And>parts. (case getLatestVersion s parts w of (a, w') \<Rightarrow> w') = w\<lparr>fetched := fetched w @ [DotNetCoreIndexUrl]\<rparr>"
    using getLatestVersion_world[of s _ w] by (simp add: split_beta)
  then show ?thesis
    by (auto simp: resolveVersionInput_def Let_def split_beta split: sum.splits prod.splits)
qed

lemma createDotNetVersion_world:
  "snd (createDotNetVersion s r w) = w
   \<or> snd (createDotNetVersion s r w) = w\<lparr>fetched := fetched w @ [DotNetCoreIndexUrl]\<rparr>"
  using resolveVersionInput_world[of s r w]
  by (auto simp: createDotNetVersion_def Let_def split: prod.splits sum.splits)

lemma push_quality_world:
  "snd (push_quality p this dv a w) = w
   \<or> snd (push_quality p this dv a w) = w\<lparr>warnings := warnings w @ [quality_warning (version this)]\<rparr>"
  by (simp add: push_quality_def setQuality_def Let_def)

lemma push_quality_frame:
  "executed (snd (push_quality p this dv a w)) = executed w
   \<and> env (snd (push_quality p this dv a w)) = env w
   \<and> fetched (snd (push_quality p this dv a w)) = fetched w"
  by (simp add: push_quality_def setQuality_def Let_def)

lemma windows_arguments_world:
  "snd (windows_arguments s this dv w) = snd (push_quality (platform s) this dv
      (push_version dv [''&'', [apos] @ escapedScript s @ [apos], ''-SkipNonVersionedFiles'']) w)"
  by (simp add: windows_arguments_def Let_def split_beta)

lemma unix_arguments_world:
  "snd (unix_arguments s this dv w) = snd (push_quality (platform s) this dv
      (push_version dv [''--skip-non-versioned-files'']) w)"
  by (simp add: unix_arguments_def Let_def)

lemma prepare_script_cases:
  "(\<exists>e. fst (prepare_script s this dv w) = Inl e
        \<and> executed (snd (prepare_script s this dv w)) = executed w)
   \<or> (\<exists>scriptPath. prepare_script s this dv w
         = (Inr (scriptPath,
                 if IS_WINDOWS (platform s)
                 then windowsDefaultOptions @ fst (windows_arguments s this dv w)
                 else fst (unix_arguments s this dv w)),
            if IS_WINDOWS (platform s) then snd (windows_arguments s this dv w)
            else snd (unix_arguments s this dv w)))"
proof (cases "IS_WINDOWS (platform s)")
  case True
  have e: "executed (snd (windows_arguments s this dv w)) = executed w"
    by (simp add: windows_arguments_world push_quality_frame)
  show ?thesis using True e
    by (auto simp: prepare_script_def which_checked_def split: prod.splits)
next
  case False
  then show ?thesis
    by (auto simp: prepare_script_def which_checked_def split: prod.splits option.splits)
qed

lemma installDotnet_executed:
  assumes "createDotNetVersion s (new_DotnetVersionResolver (version this)) w = (Inr dv, w1)"
  shows "executed (snd (installDotnet s b this w)) = executed w
   \<or> (\<exists>cmd. executed (snd (installDotnet s b this w))
         = executed w @ [(cmd, if IS_WINDOWS (platform s)
                               then windowsDefaultOptions @ fst (windows_arguments s this dv w1)
                               else fst (unix_arguments s this dv w1))])"
proof -
  have w1: "executed w1 = executed w"
    using createDotNetVersion_world[of s "new_DotnetVersionResolver (version this)" w] assms
    by auto
  have q: "executed (snd (windows_arguments s this dv w1)) = executed w1"
    "executed (snd (unix_arguments s this dv w1)) = executed w1"
    by (simp_all add: windows_arguments_world unix_arguments_world push_quality_frame)
  from prepare_script_cases[of s this dv w1] show ?thesis
  proof (elim disjE exE conjE)
    fix e assume "fst (prepare_script s this dv w1) = Inl e"
      and "executed (snd (prepare_script s this dv w1)) = executed w1"
    then show ?thesis
      using w1 by (cases "prepare_script s this dv w1") (simp add: installDotnet_def assms)
  next
    fix scriptPath
    assume p: "prepare_script s this dv w1
         = (Inr (scriptPath,
                 if IS_WINDOWS (platform s)
                 then windowsDefaultOptions @ fst (windows_arguments s this dv w1)
                 else fst (unix_arguments s this dv w1)),
            if IS_WINDOWS (platform s) then snd (windows_arguments s this dv w1)
            else snd (unix_arguments s this dv w1))"
    show ?thesis
      using w1 q
      by (auto simp: installDotnet_def assms p Let_def split: sum.splits prod.splits)
  qed
qed

section \<open>The degenerate directive\<close>

text \<open>
  Claim C7. For every input that passes the range validation, is not an exact version,
  and whose first dot-separated component is not a digit string, resolution returns the
  directive with empty type and empty value and leaves the process state unchanged. The
  script arguments built from it carry no version or channel flag: only the fixed flag,
  the quality pair when a quality is given and the quality flag holds, and on Windows
  the proxy arguments; and when installDotnet runs the installer, it runs it with
  exactly these arguments.
\<close>

theorem resolve_no_directive:
  assumes "validRange (lib s) (js_trim raw)" and "\<not> valid (lib s) (js_trim raw)"
    and "\<not> isNumericTag (js_index (js_split CHR ''.'' (js_trim raw)) 0)"
    and "dv = \<lparr>type = [], val = [],
                qualityFlag = js_ge_nat (js_unary_plus (js_index (js_split CHR ''.'' (js_trim raw)) 0)) 6\<rparr>"
    and "version this = raw"
  shows "createDotNetVersion s (new_DotnetVersionResolver raw) w = (Inr dv, w)
         \<and> fst (unix_arguments s this dv w)
             = [''--skip-non-versioned-files'']
               @ (if quality this \<noteq> [] \<and> qualityFlag dv
                  then [if IS_WINDOWS (platform s) then ''-Quality'' else ''--quality'', quality this]
                  else [])
         \<and> fst (windows_arguments s this dv w)
             = [''&'', [apos] @ escapedScript s @ [apos], ''-SkipNonVersionedFiles'']
               @ (if quality this \<noteq> [] \<and> qualityFlag dv
                  then [if IS_WINDOWS (platform s) then ''-Quality'' else ''--quality'', quality this]
                  else [])
               @ (case env w ''https_proxy'' of None \<Rightarrow> [] | Some v \<Rightarrow> [''-ProxyAddress '' @ v])
               @ (case env w ''no_proxy'' of None \<Rightarrow> [] | Some v \<Rightarrow> [''-ProxyBypassList '' @ v])
         \<and> (executed (snd (installDotnet s b this w)) = executed w
              \<or> (\<exists>cmd. executed (snd (installDotnet s b this w))
                    = executed w @ [(cmd, if IS_WINDOWS (platform s)
                                          then windowsDefaultOptions @ fst (windows_arguments s this dv w)
                                          else fst (unix_arguments s this dv w))]))"
proof -
  have c: "createDotNetVersion s (new_DotnetVersionResolver raw) w = (Inr dv, w)"
    using assms(1-4)
    by (simp add: createDotNetVersion_def resolveVersionInput_def new_DotnetVersionResolver_def
        Let_def)
  have u: "fst (unix_arguments s this dv w)
             = [''--skip-non-versioned-files'']
               @ (if quality this \<noteq> [] \<and> qualityFlag dv
                  then [if IS_WINDOWS (platform s) then ''-Quality'' else ''--quality'', quality this]
                  else [])"
    by (simp add: unix_arguments_def push_version_def push_quality_def setQuality_def assms(4)
        Let_def)
  have wa: "fst (windows_arguments s this dv w)
             = [''&'', [apos] @ escapedScript s @ [apos], ''-SkipNonVersionedFiles'']
               @ (if quality this \<noteq> [] \<and> qualityFlag dv
                  then [if IS_WINDOWS (platform s) then ''-Quality'' else ''--quality'', quality this]
                  else [])
               @ (case env w ''https_proxy'' of None \<Rightarrow> [] | Some v \<Rightarrow> [''-ProxyAddress '' @ v])
               @ (case env w ''no_proxy'' of None \<Rightarrow> [] | Some v \<Rightarrow> [''-ProxyBypassList '' @ v])"
    by (simp add: windows_arguments_def push_version_def push_quality_def setQuality_def assms(4)
        push_proxy_def Let_def split: option.splits)
  have c': "createDotNetVersion s (new_DotnetVersionResolver (version this)) w = (Inr dv, w)"
    using c assms(5) by simp
  show ?thesis
    using c u wa installDotnet_executed[OF c', of b] by blast
qed

theorem resolve_no_directive_witness:
  "validRange (lib (example_sys Linux (Inr None) [] [])) (js_trim ''*'')
   \<and> \<not> valid (lib (example_sys Linux (Inr None) [] [])) (js_trim ''*'')
   \<and> \<not> isNumericTag (js_index (js_split CHR ''.'' (js_trim ''*'')) 0)
   \<and> createDotNetVersion (example_sys Linux (Inr None) [] []) (new_DotnetVersionResolver ''*'')
         (example_world [])
       = (Inr \<lparr>type = [], val = [], qualityFlag = False\<rparr>, example_world [])
   \<and> fst (unix_arguments (example_sys Linux (Inr None) [] []) \<lparr>version = ''*'', quality = ''ga''\<rparr>
            \<lparr>type = [], val = [], qualityFlag = False\<rparr> (example_world []))
       = [''--skip-non-versioned-files'']
   \<and> executed (snd (installDotnet (example_sys Linux (Inr None) [] []) example_base
                        \<lparr>version = ''*'', quality = ''ga''\<rparr> (example_world [])))
       = [([CHR 0x22] @ ''/action/dist/../externals/install-dotnet.sh'' @ [CHR 0x22],
           [''--skip-non-versioned-files''])]"
proof -
  let ?S = "example_sys Linux (Inr None) [] []"
  have h1: "validRange (lib ?S) (js_trim ''*'')" by code_simp
  have h2: "\<not> valid (lib ?S) (js_trim ''*'')" by code_simp
  have h3: "\<not> isNumericTag (js_index (js_split CHR ''.'' (js_trim ''*'')) 0)" by code_simp
  have q: "js_ge_nat (js_unary_plus (js_index (js_split CHR ''.'' (js_trim ''*'')) 0)) 6 = False"
    by code_simp
  have d: "\<lparr>type = [], val = [], qualityFlag = False\<rparr>
            = \<lparr>type = [], val = [],
               qualityFlag = js_ge_nat (js_unary_plus (js_index (js_split CHR ''.'' (js_trim ''*'')) 0)) 6\<rparr>"
    by (simp add: q)
  have v: "version \<lparr>version = ''*'', quality = ''ga''\<rparr> = ''*''" by simp
  have ex: "executed (snd (installDotnet ?S example_base
                        \<lparr>version = ''*'', quality = ''ga''\<rparr> (example_world [])))
       = [([CHR 0x22] @ ''/action/dist/../externals/install-dotnet.sh'' @ [CHR 0x22],
           [''--skip-non-versioned-files''])]"
    by code_simp
  show ?thesis
    using h1 h2 h3 ex
      resolve_no_directive [OF h1 h2 h3 d v, of "example_world []" example_base]
    by simp
qed

section \<open>The quality argument\<close>

lemma outputDotnetVersion_env:
  "env w = env w' \<Longrightarrow> outputDotnetVersion s b v w = outputDotnetVersion s b v w'"
  by (simp add: outputDotnetVersion_def InstallDir_path_def)

lemma push_quality_empty: "quality this = [] \<Longrightarrow> push_quality p this dv a w = (a, w)"
  by (simp add: push_quality_def)

lemma prepare_script_no_quality:
  assumes "quality this = []"
  shows "snd (prepare_script s this dv w) = w"
  using assms
  by (auto simp: prepare_script_def windows_arguments_def unix_arguments_def push_quality_empty
      Let_def split: sum.splits option.splits prod.splits)

lemma installDotnet_warnings:
  "warnings (snd (installDotnet s b this w))
     = warnings (snd (case createDotNetVersion s (new_DotnetVersionResolver (version this)) w of
                        (Inl e, w1) \<Rightarrow> (Inl e, w1)
                      | (Inr dv, w1) \<Rightarrow> prepare_script s this dv w1))"
  by (auto simp: installDotnet_def Let_def split: sum.splits prod.splits)

text \<open>
  Claim C10. When the quality input is the empty string, on every platform and for every
  directive (also one whose quality flag is true), the script arguments end after the
  version pair (on Windows, after the proxy arguments that follow it): no quality flag
  is appended, the process state is unchanged by the argument builder, and a whole run of
  installDotnet emits no warning.
\<close>

theorem no_quality_no_flag:
  assumes "quality this = []"
  shows "unix_arguments s this dv w = (push_version dv [''--skip-non-versioned-files''], w)
         \<and> windows_arguments s this dv w
             = (push_version dv [''&'', [apos] @ escapedScript s @ [apos], ''-SkipNonVersionedFiles'']
                @ (case env w ''https_proxy'' of None \<Rightarrow> [] | Some v \<Rightarrow> [''-ProxyAddress '' @ v])
                @ (case env w ''no_proxy'' of None \<Rightarrow> [] | Some v \<Rightarrow> [''-ProxyBypassList '' @ v]), w)
         \<and> warnings (snd (installDotnet s b this w)) = warnings w"
proof -
  have u: "unix_arguments s this dv w = (push_version dv [''--skip-non-versioned-files''], w)"
    by (simp add: unix_arguments_def push_quality_empty[OF assms])
  have wa: "windows_arguments s this dv w
             = (push_version dv [''&'', [apos] @ escapedScript s @ [apos], ''-SkipNonVersionedFiles'']
                @ (case env w ''https_proxy'' of None \<Rightarrow> [] | Some v \<Rightarrow> [''-ProxyAddress '' @ v])
                @ (case env w ''no_proxy'' of None \<Rightarrow> [] | Some v \<Rightarrow> [''-ProxyBypassList '' @ v]), w)"
    by (simp add: windows_arguments_def push_quality_empty[OF assms] push_proxy_def Let_def
        split: option.splits)
  have cw: "warnings (snd (createDotNetVersion s (new_DotnetVersionResolver (version this)) w))
              = warnings w"
    using createDotNetVersion_world[of s "new_DotnetVersionResolver (version this)" w] by auto
  have "warnings (snd (installDotnet s b this w)) = warnings w"
    using cw
    by (cases "createDotNetVersion s (new_DotnetVersionResolver (version this)) w")
       (auto simp: installDotnet_warnings prepare_script_no_quality[OF assms] split: sum.splits)
  then show ?thesis using u wa by simp
qed


theorem no_quality_no_flag_witness:
  "quality \<lparr>version = ''6.0'', quality = []\<rparr> = []
   \<and> fst (unix_arguments (example_sys Linux (Inr None) [] []) \<lparr>version = ''6.0'', quality = []\<rparr>
            \<lparr>type = ''--channel'', val = ''6.0'', qualityFlag = True\<rparr> (example_world []))
       = [''--skip-non-versioned-files'', ''--channel'', ''6.0'']
   \<and> warnings (snd (installDotnet (example_sys Linux (Inr None) [] []) example_base
                        \<lparr>version = ''6.0'', quality = []\<rparr> (example_world []))) = []"
proof -
  have h: "quality \<lparr>version = ''6.0'', quality = []\<rparr> = []" by simp
  have p: "push_version \<lparr>type = ''--channel'', val = ''6.0'', qualityFlag = True\<rparr>
             [''--skip-non-versioned-files'']
           = [''--skip-non-versioned-files'', ''--channel'', ''6.0'']"
    by (simp add: push_version_def)
  have w: "warnings (example_world []) = []" by (simp add: example_world_def)
  show ?thesis
    using no_quality_no_flag [OF h, of "example_sys Linux (Inr None) [] []"
        "\<lparr>type = ''--channel'', val = ''6.0'', qualityFlag = True\<rparr>" "example_world []"
        example_base]
    by (simp add: p w)
qed

lemma arguments_env:
  "env (snd (windows_arguments s this dv w)) = env w"
  "env (snd (unix_arguments s this dv w)) = env w"
  by (simp_all add: windows_arguments_world unix_arguments_world push_quality_frame)

lemma prepare_script_env: "env (snd (prepare_script s this dv w)) = env w"
  using arguments_env[of s this dv w]
  by (auto simp: prepare_script_def split: sum.splits option.splits prod.splits)

lemma prepare_script_dropped:
  assumes "\<not> qualityFlag dv"
  shows "fst (prepare_script s this dv w) = fst (prepare_script s (this\<lparr>quality := []\<rparr>) dv w)"
  using assms
  by (auto simp: prepare_script_def windows_arguments_def unix_arguments_def push_quality_def
      setQuality_def push_proxy_def Let_def split: sum.splits option.splits prod.splits)

lemma installDotnet_result:
  "fst (installDotnet s b this w)
     = (case createDotNetVersion s (new_DotnetVersionResolver (version this)) w of
          (Inl e, w1) \<Rightarrow> Inl e
        | (Inr dv, w1) \<Rightarrow>
            (case fst (prepare_script s this dv w1) of
               Inl e \<Rightarrow> Inl e
             | Inr (scriptPath, scriptArguments) \<Rightarrow>
                 (case getExecOutput s ([CHR 0x22] @ scriptPath @ [CHR 0x22]) scriptArguments (env w1) of
                    Inl e \<Rightarrow> Inl e
                  | Inr (exitCode, stderr) \<Rightarrow>
                      if exitCode \<noteq> 0 then
                        Inl (InstallationFailed
                           (''Failed to install dotnet, exit code: '' @ show_int exitCode
                            @ ''. '' @ stderr))
                      else outputDotnetVersion s b (val dv) w1)))"
proof (cases "createDotNetVersion s (new_DotnetVersionResolver (version this)) w")
  case (Pair r w1)
  show ?thesis
  proof (cases r)
    case (Inl e)
    then show ?thesis using Pair by (simp add: installDotnet_def)
  next
    case (Inr dv)
    obtain pr w2 where p: "prepare_script s this dv w1 = (pr, w2)"
      by (cases "prepare_script s this dv w1")
    have e: "env w2 = env w1" using prepare_script_env[of s this dv w1] p by simp
    have o: "\<And>x ex. outputDotnetVersion s b (val dv) (w2\<lparr>executed := ex\<rparr>)
                     = outputDotnetVersion s b (val dv) w1"
      by (rule outputDotnetVersion_env) (simp add: e)
    show ?thesis
      using Pair Inr p e o
      by (auto simp: installDotnet_def Let_def split: sum.splits prod.splits)
  qed
qed


text \<open>
  Claim C6. When a quality is requested (a non-empty string), the argument builder appends
  the quality flag and the quality value after the version pair if the directive's quality
  flag is true, and emits no warning; if the flag is false it appends nothing, emits the
  warning, and the run goes on as it would without a quality: the script path and
  arguments, and the result of installDotnet, are those of the same installer with the
  quality left empty.
\<close>

theorem quality_flag_iff_supported:
  assumes "quality this \<noteq> []"
  shows "unix_arguments s this dv w
           = (if qualityFlag dv
              then (push_version dv [''--skip-non-versioned-files'']
                    @ [if IS_WINDOWS (platform s) then ''-Quality'' else ''--quality'', quality this], w)
              else (push_version dv [''--skip-non-versioned-files''],
                    w\<lparr>warnings := warnings w @ [quality_warning (version this)]\<rparr>))
         \<and> windows_arguments s this dv w
           = (push_version dv [''&'', [apos] @ escapedScript s @ [apos], ''-SkipNonVersionedFiles'']
              @ (if qualityFlag dv
                 then [if IS_WINDOWS (platform s) then ''-Quality'' else ''--quality'', quality this]
                 else [])
              @ (case env w ''https_proxy'' of None \<Rightarrow> [] | Some v \<Rightarrow> [''-ProxyAddress '' @ v])
              @ (case env w ''no_proxy'' of None \<Rightarrow> [] | Some v \<Rightarrow> [''-ProxyBypassList '' @ v]),
              if qualityFlag dv then w
              else w\<lparr>warnings := warnings w @ [quality_warning (version this)]\<rparr>)
         \<and> (\<not> qualityFlag dv \<longrightarrow>
               fst (prepare_script s this dv w) = fst (prepare_script s (this\<lparr>quality := []\<rparr>) dv w))
         \<and> (\<forall>d w1. createDotNetVersion s (new_DotnetVersionResolver (version this)) w = (Inr d, w1)
                 \<longrightarrow> \<not> qualityFlag d
                 \<longrightarrow> fst (installDotnet s b this w)
                       = fst (installDotnet s b (this\<lparr>quality := []\<rparr>) w))"
proof -
  have u: "unix_arguments s this dv w
           = (if qualityFlag dv
              then (push_version dv [''--skip-non-versioned-files'']
                    @ [if IS_WINDOWS (platform s) then ''-Quality'' else ''--quality'', quality this], w)
              else (push_version dv [''--skip-non-versioned-files''],
                    w\<lparr>warnings := warnings w @ [quality_warning (version this)]\<rparr>))"
    using assms by (simp add: unix_arguments_def push_quality_def setQuality_def Let_def)
  have wa: "windows_arguments s this dv w
           = (push_version dv [''&'', [apos] @ escapedScript s @ [apos], ''-SkipNonVersionedFiles'']
              @ (if qualityFlag dv
                 then [if IS_WINDOWS (platform s) then ''-Quality'' else ''--quality'', quality this]
                 else [])
              @ (case env w ''https_proxy'' of None \<Rightarrow> [] | Some v \<Rightarrow> [''-ProxyAddress '' @ v])
              @ (case env w ''no_proxy'' of None \<Rightarrow> [] | Some v \<Rightarrow> [''-ProxyBypassList '' @ v]),
              if qualityFlag dv then w
              else w\<lparr>warnings := warnings w @ [quality_warning (version this)]\<rparr>)"
    using assms
    by (simp add: windows_arguments_def push_quality_def setQuality_def push_proxy_def Let_def
        split: option.splits)
  have i: "fst (installDotnet s b this w) = fst (installDotnet s b (this\<lparr>quality := []\<rparr>) w)"
    if c: "createDotNetVersion s (new_DotnetVersionResolver (version this)) w = (Inr d, w1)"
      and n: "\<not> qualityFlag d" for d w1
  proof -
    have v: "version (this\<lparr>quality := []\<rparr>) = version this" by simp
    show ?thesis
      using prepare_script_dropped[OF n, of s this w1]
      by (simp only: installDotnet_result v c) simp
  qed
  show ?thesis
  proof (intro conjI allI impI)
    show "unix_arguments s this dv w
           = (if qualityFlag dv
              then (push_version dv [''--skip-non-versioned-files'']
                    @ [if IS_WINDOWS (platform s) then ''-Quality'' else ''--quality'', quality this], w)
              else (push_version dv [''--skip-non-versioned-files''],
                    w\<lparr>warnings := warnings w @ [quality_warning (version this)]\<rparr>))"
      by (rule u)
    show "windows_arguments s this dv w
           = (push_version dv [''&'', [apos] @ escapedScript s @ [apos], ''-SkipNonVersionedFiles'']
              @ (if qualityFlag dv
                 then [if IS_WINDOWS (platform s) then ''-Quality'' else ''--quality'', quality this]
                 else [])
              @ (case env w ''https_proxy'' of None \<Rightarrow> [] | Some v \<Rightarrow> [''-ProxyAddress '' @ v])
              @ (case env w ''no_proxy'' of None \<Rightarrow> [] | Some v \<Rightarrow> [''-ProxyBypassList '' @ v]),
              if qualityFlag dv then w
              else w\<lparr>warnings := warnings w @ [quality_warning (version this)]\<rparr>)"
      by (rule wa)
    show "fst (prepare_script s this dv w) = fst (prepare_script s (this\<lparr>quality := []\<rparr>) dv w)"
      if "\<not> qualityFlag dv"
      using that by (rule prepare_script_dropped)
    show "fst (installDotnet s b this w) = fst (installDotnet s b (this\<lparr>quality := []\<rparr>) w)"
      if "createDotNetVersion s (new_DotnetVersionResolver (version this)) w = (Inr d, w1)"
        and "\<not> qualityFlag d" for d w1
      using that by (rule i)
  qed
qed


theorem quality_flag_iff_supported_witness:
  "quality \<lparr>version = ''5.0'', quality = ''preview''\<rparr> \<noteq> []
   \<and> unix_arguments (example_sys Linux (Inr None) ''/usr/share/dotnet/5/sdk'' [''5.0.408''])
        \<lparr>version = ''5.0'', quality = ''preview''\<rparr>
        \<lparr>type = ''--channel'', val = ''5.0'', qualityFlag = False\<rparr> (example_world [])
       = ([''--skip-non-versioned-files'', ''--channel'', ''5.0''],
          (example_world [])\<lparr>warnings := [quality_warning ''5.0'']\<rparr>)
   \<and> unix_arguments (example_sys Linux (Inr None) ''/usr/share/dotnet/5/sdk'' [''5.0.408''])
        \<lparr>version = ''5.0'', quality = ''preview''\<rparr>
        \<lparr>type = ''--channel'', val = ''6.0'', qualityFlag = True\<rparr> (example_world [])
       = ([''--skip-non-versioned-files'', ''--channel'', ''6.0'', ''--quality'', ''preview''],
          example_world [])
   \<and> fst (installDotnet (example_sys Linux (Inr None) ''/usr/share/dotnet/5/sdk'' [''5.0.408''])
            example_base \<lparr>version = ''5.0'', quality = ''preview''\<rparr>
            (snd (new_DotnetCoreInstaller Linux example_base ''5.0'' ''preview''
                    (example_world []))))
       = Inr (Some ''5.0.408'')"
proof -
  let ?S = "example_sys Linux (Inr None) ''/usr/share/dotnet/5/sdk'' [''5.0.408'']"
  let ?T = "\<lparr>version = ''5.0'', quality = ''preview''\<rparr>"
  have h: "quality ?T \<noteq> []" by simp
  have p: "platform ?S = Linux" by (simp add: example_sys_def)
  have w: "warnings (example_world []) = []" by (simp add: example_world_def)
  have r: "fst (installDotnet ?S example_base ?T
            (snd (new_DotnetCoreInstaller Linux example_base ''5.0'' ''preview''
                    (example_world []))))
       = Inr (Some ''5.0.408'')"
    by code_simp
  have a5: "unix_arguments ?S ?T \<lparr>type = ''--channel'', val = ''5.0'', qualityFlag = False\<rparr>
              (example_world [])
       = ([''--skip-non-versioned-files'', ''--channel'', ''5.0''],
          (example_world [])\<lparr>warnings := [quality_warning ''5.0'']\<rparr>)"
    using quality_flag_iff_supported [OF h, of ?S
        "\<lparr>type = ''--channel'', val = ''5.0'', qualityFlag = False\<rparr>" "example_world []"
        example_base, THEN conjunct1]
    by (simp add: w push_version_def)
  have a6: "unix_arguments ?S ?T \<lparr>type = ''--channel'', val = ''6.0'', qualityFlag = True\<rparr>
              (example_world [])
       = ([''--skip-non-versioned-files'', ''--channel'', ''6.0'', ''--quality'', ''preview''],
          example_world [])"
    using quality_flag_iff_supported [OF h, of ?S
        "\<lparr>type = ''--channel'', val = ''6.0'', qualityFlag = True\<rparr>" "example_world []"
        example_base, THEN conjunct1]
    by (simp add: p IS_WINDOWS_def push_version_def)
  show ?thesis
    using h a5 a6 r by blast
qed

section \<open>The post-install scan\<close>

lemma maxSatisfying_snoc:
  "maxSatisfying l (xs @ [x]) rng =
     (if satisfies l x rng then
        (case maxSatisfying l xs rng of
           None \<Rightarrow> Some x
         | Some m \<Rightarrow> if compare l m x = - 1 then Some x else Some m)
      else maxSatisfying l xs rng)"
  by (simp add: maxSatisfying_def)

lemma maxSatisfying_Nil: "maxSatisfying l [] rng = None"
  by (simp add: maxSatisfying_def)

lemma maxSatisfying_None:
  "(maxSatisfying l xs rng = None) = (\<forall>v\<in>set xs. \<not> satisfies l v rng)"
  by (induction xs rule: rev_induct)
     (auto simp: maxSatisfying_Nil maxSatisfying_snoc split: option.splits)

lemma maxSatisfying_Some:
  assumes "set xs \<subseteq> S"
    and irrefl: "\<forall>a\<in>S. compare l a a \<noteq> - 1"
    and trans: "\<forall>a\<in>S. \<forall>b\<in>S. \<forall>c\<in>S. compare l a b = - 1 \<longrightarrow> compare l b c = - 1 \<longrightarrow> compare l a c = - 1"
    and "maxSatisfying l xs rng = Some m"
  shows "m \<in> set xs \<and> satisfies l m rng
         \<and> (\<forall>v\<in>set xs. satisfies l v rng \<longrightarrow> compare l m v \<noteq> - 1)"
  using assms(1,4)
proof (induction xs arbitrary: m rule: rev_induct)
  case Nil
  then show ?case by (simp add: maxSatisfying_Nil)
next
  case (snoc x xs)
  have xS: "x \<in> S" and xsS: "set xs \<subseteq> S" using snoc.prems(1) by auto
  show ?case
  proof (cases "satisfies l x rng")
    case False
    then have "maxSatisfying l xs rng = Some m"
      using snoc.prems(2) by (simp add: maxSatisfying_snoc)
    from snoc.IH[OF xsS this] False show ?thesis by auto
  next
    case True
    show ?thesis
    proof (cases "maxSatisfying l xs rng")
      case None
      then have "m = x" using snoc.prems(2) True by (simp add: maxSatisfying_snoc)
      moreover have "\<forall>v\<in>set xs. \<not> satisfies l v rng"
        using None by (simp add: maxSatisfying_None)
      ultimately show ?thesis using True irrefl xS by auto
    next
      case (Some k)
      note ih = snoc.IH[OF xsS Some]
      have kS: "k \<in> S" using ih xsS by auto
      show ?thesis
      proof (cases "compare l k x = - 1")
        case lt: True
        then have mx: "m = x" using snoc.prems(2) True Some by (simp add: maxSatisfying_snoc)
        have "compare l x v \<noteq> - 1" if v: "v \<in> set xs" "satisfies l v rng" for v
        proof
          assume "compare l x v = - 1"
          moreover have "v \<in> S" using v xsS by auto
          ultimately have "compare l k v = - 1" using trans kS xS lt by blast
          then show False using ih v by auto
        qed
        then show ?thesis using mx True irrefl xS by auto
      next
        case ge: False
        then have "m = k" using snoc.prems(2) True Some by (simp add: maxSatisfying_snoc)
        then show ?thesis using ih ge by auto
      qed
    qed
  qed
qed


text \<open>
  Claim C3. When the SDK subdirectory of the selected install directory lists \<open>names\<close>, the
  post-install scan returns a name that satisfies the directive value as a range (tested
  with prereleases included) and that no satisfying name exceeds in version order, and it
  returns null only when no name satisfies the range. The version order of the package is
  assumed irreflexive and transitive on the names. The example of the specification is
  the witness: the names 7.0.100, 7.0.203 and 7.0.1-preview with the value 7.0 give 7.0.203.
\<close>

theorem output_is_max_satisfying:
  assumes "readdir s (path_join s [replace_all_char apos [] (InstallDir_path (platform s) b w), ''sdk''])
             = Inr names"
    and "\<forall>a\<in>set names. compare (lib s) a a \<noteq> - 1"
    and "\<forall>a\<in>set names. \<forall>b\<in>set names. \<forall>c\<in>set names.
           compare (lib s) a b = - 1 \<longrightarrow> compare (lib s) b c = - 1 \<longrightarrow> compare (lib s) a c = - 1"
  shows "case outputDotnetVersion s b rng w of
           Inl e \<Rightarrow> False
         | Inr None \<Rightarrow> \<forall>v\<in>set names. \<not> satisfies (lib s) v rng
         | Inr (Some m) \<Rightarrow>
             m \<in> set names \<and> satisfies (lib s) m rng
             \<and> (\<forall>v\<in>set names. satisfies (lib s) v rng \<longrightarrow> compare (lib s) m v \<noteq> - 1)"
proof -
  have o: "outputDotnetVersion s b rng w = Inr (maxSatisfying (lib s) names rng)"
    using assms(1) by (simp add: outputDotnetVersion_def)
  show ?thesis
  proof (cases "maxSatisfying (lib s) names rng")
    case None
    then have "\<forall>v\<in>set names. \<not> satisfies (lib s) v rng"
      by (simp add: maxSatisfying_None)
    then show ?thesis by (simp add: o None)
  next
    case (Some m)
    have "set names \<subseteq> set names" by simp
    from maxSatisfying_Some[OF this assms(2) assms(3) Some] show ?thesis
      using o Some by simp
  qed
qed

theorem output_is_max_satisfying_witness:
  "readdir (example_sys Linux (Inr None) ''/usr/share/dotnet/7/sdk''
              [''7.0.100'', ''7.0.203'', ''7.0.1-preview''])
     (path_join (example_sys Linux (Inr None) ''/usr/share/dotnet/7/sdk''
                   [''7.0.100'', ''7.0.203'', ''7.0.1-preview''])
        [replace_all_char apos []
           (InstallDir_path Linux example_base
              (new_InstallDir Linux example_base ''7.0'' (example_world []))), ''sdk''])
     = Inr [''7.0.100'', ''7.0.203'', ''7.0.1-preview'']
   \<and> satisfies plain_semver ''7.0.1-preview'' ''7.0''
   \<and> outputDotnetVersion
        (example_sys Linux (Inr None) ''/usr/share/dotnet/7/sdk''
           [''7.0.100'', ''7.0.203'', ''7.0.1-preview''])
        example_base ''7.0''
        (new_InstallDir Linux example_base ''7.0'' (example_world []))
       = Inr (Some ''7.0.203'')"
proof -
  let ?N = "[''7.0.100'', ''7.0.203'', ''7.0.1-preview'']"
  let ?S = "example_sys Linux (Inr None) ''/usr/share/dotnet/7/sdk'' ?N"
  let ?W = "new_InstallDir Linux example_base ''7.0'' (example_world [])"
  have p: "platform ?S = Linux" by (simp add: example_sys_def)
  have l: "lib ?S = plain_semver" by (simp add: example_sys_def)
  have rd: "readdir ?S (path_join ?S [replace_all_char apos []
              (InstallDir_path (platform ?S) example_base ?W), ''sdk'']) = Inr ?N"
    by code_simp
  have ir: "\<forall>a\<in>set ?N. compare (lib ?S) a a \<noteq> - 1"
    by code_simp
  have tr: "\<forall>a\<in>set ?N. \<forall>b\<in>set ?N. \<forall>c\<in>set ?N.
           compare (lib ?S) a b = - 1 \<longrightarrow> compare (lib ?S) b c = - 1 \<longrightarrow> compare (lib ?S) a c = - 1"
    by code_simp
  have sp: "satisfies plain_semver ''7.0.1-preview'' ''7.0''" by code_simp
  have v: "outputDotnetVersion ?S example_base ''7.0'' ?W = Inr (Some ''7.0.203'')"
    by code_simp
  have "case outputDotnetVersion ?S example_base ''7.0'' ?W of
           Inl e \<Rightarrow> False
         | Inr None \<Rightarrow> \<forall>v\<in>set ?N. \<not> satisfies (lib ?S) v ''7.0''
         | Inr (Some m) \<Rightarrow>
             m \<in> set ?N \<and> satisfies (lib ?S) m ''7.0''
             \<and> (\<forall>v\<in>set ?N. satisfies (lib ?S) v ''7.0'' \<longrightarrow> compare (lib ?S) m v \<noteq> - 1)"
    by (rule output_is_max_satisfying [OF rd ir tr])
  then show ?thesis
    using rd sp v by (simp add: p)
qed


text \<open>
  Claim C2, as amended. When the SDK subdirectory can be listed and none of its names
  satisfies the directive value as a range, the post-install version determination
  returns null; no error is raised.
\<close>

theorem output_none_without_match:
  assumes "readdir s (path_join s [replace_all_char apos [] (InstallDir_path (platform s) b w), ''sdk''])
             = Inr names"
    and "\<forall>v\<in>set names. \<not> satisfies (lib s) v rng"
  shows "outputDotnetVersion s b rng w = Inr None"
  using assms by (simp add: outputDotnetVersion_def maxSatisfying_None)

theorem output_none_without_match_witness:
  "readdir (example_sys Linux (Inr None) ''/usr/share/dotnet/7/sdk'' [''6.0.100'', ''8.0.1''])
     (path_join (example_sys Linux (Inr None) ''/usr/share/dotnet/7/sdk'' [''6.0.100'', ''8.0.1''])
        [replace_all_char apos []
           (InstallDir_path Linux example_base
              (new_InstallDir Linux example_base ''7.0'' (example_world []))), ''sdk''])
     = Inr [''6.0.100'', ''8.0.1'']
   \<and> \<not> satisfies plain_semver ''6.0.100'' ''7.0''
   \<and> \<not> satisfies plain_semver ''8.0.1'' ''7.0''
   \<and> outputDotnetVersion
        (example_sys Linux (Inr None) ''/usr/share/dotnet/7/sdk'' [''6.0.100'', ''8.0.1''])
        example_base ''7.0'' (new_InstallDir Linux example_base ''7.0'' (example_world []))
       = Inr None"
proof -
  let ?N = "[''6.0.100'', ''8.0.1'']"
  let ?S = "example_sys Linux (Inr None) ''/usr/share/dotnet/7/sdk'' ?N"
  let ?W = "new_InstallDir Linux example_base ''7.0'' (example_world [])"
  have p: "platform ?S = Linux" by (simp add: example_sys_def)
  have l: "lib ?S = plain_semver" by (simp add: example_sys_def)
  have rd: "readdir ?S (path_join ?S [replace_all_char apos []
              (InstallDir_path (platform ?S) example_base ?W), ''sdk'']) = Inr ?N"
    by code_simp
  have ns: "\<forall>v\<in>set ?N. \<not> satisfies (lib ?S) v ''7.0''"
    by code_simp
  show ?thesis
    using rd ns output_none_without_match [OF rd ns] by (simp add: p l)
qed

text \<open>
  The claim as stated asks for an error here: one installed SDK, 6.0.100, and the directive
  value 7.0. The scan, and the whole of installDotnet, return null instead.
\<close>

theorem version_not_found_counterexample:
  "\<not> satisfies plain_semver ''6.0.100'' ''7.0''
   \<and> outputDotnetVersion
        (example_sys Linux (Inr None) ''/usr/share/dotnet/7/sdk'' [''6.0.100''])
        example_base ''7.0'' (new_InstallDir Linux example_base ''7.0'' (example_world []))
       = Inr None
   \<and> fst (installDotnet
        (example_sys Linux (Inr None) ''/usr/share/dotnet/7/sdk'' [''6.0.100''])
        example_base \<lparr>version = ''7.0'', quality = []\<rparr>
        (new_InstallDir Linux example_base ''7.0'' (example_world [])))
       = Inr None"
  by code_simp

section \<open>Install-directory selection\<close>

lemma js_split_hd: "js_index (js_split c s) 0 = Some (takeWhile (\<lambda>x. x \<noteq> c) s)"
proof (induction s)
  case Nil
  then show ?case by (simp add: js_index_def)
next
  case (Cons x xs)
  then show ?case
    using js_split_nonempty[of c xs]
    by (cases "js_split c xs") (auto simp: js_index_def split: if_splits)
qed

text \<open>
  Claim C1, as amended. Constructing the directory selector always writes
  \<open>DOTNET_INSTALL_DIR\<close>, whether it was set before or not: the new value is the base
  directory of the platform, the path separator and the part of the version before its
  first dot. No other variable changes, and the getter \<open>path\<close> then returns that computed
  directory. The getter on its own returns a non-empty value of the variable unchanged.
\<close>

theorem install_dir_overwritten:
  "env (new_InstallDir p b ver w) ''DOTNET_INSTALL_DIR''
     = Some ((case p of Windows \<Rightarrow> windows b @ [backslash]
              | Linux \<Rightarrow> linux b @ ''/''
              | MacOS \<Rightarrow> mac b @ ''/'') @ takeWhile (\<lambda>c. c \<noteq> CHR ''.'') ver)
   \<and> InstallDir_path p b (new_InstallDir p b ver w)
     = (case p of Windows \<Rightarrow> windows b @ [backslash]
        | Linux \<Rightarrow> linux b @ ''/''
        | MacOS \<Rightarrow> mac b @ ''/'') @ takeWhile (\<lambda>c. c \<noteq> CHR ''.'') ver
   \<and> (\<forall>k. k \<noteq> ''DOTNET_INSTALL_DIR'' \<longrightarrow> env (new_InstallDir p b ver w) k = env w k)
   \<and> (\<forall>d. env w ''DOTNET_INSTALL_DIR'' = Some d \<longrightarrow> d \<noteq> [] \<longrightarrow> InstallDir_path p b w = d)"
  by (cases p)
     (simp_all add: new_InstallDir_def InstallDir_path_def IS_WINDOWS_def IS_LINUX_def
        js_split_hd js_string_def Let_def)

theorem install_dir_overwritten_witness:
  "env (example_world [(''DOTNET_INSTALL_DIR'', ''/opt/dotnet'')]) ''DOTNET_INSTALL_DIR''
     = Some ''/opt/dotnet''
   \<and> ''/opt/dotnet'' \<noteq> []
   \<and> InstallDir_path Linux example_base (example_world [(''DOTNET_INSTALL_DIR'', ''/opt/dotnet'')])
     = ''/opt/dotnet''
   \<and> InstallDir_path Linux example_base
        (new_InstallDir Linux example_base ''7.0.100''
           (example_world [(''DOTNET_INSTALL_DIR'', ''/opt/dotnet'')]))
     = ''/usr/share/dotnet/7''"
proof -
  let ?W = "example_world [(''DOTNET_INSTALL_DIR'', ''/opt/dotnet'')]"
  have e: "env ?W ''DOTNET_INSTALL_DIR'' = Some ''/opt/dotnet''"
    by (simp add: example_world_def)
  have t: "takeWhile (\<lambda>c. c \<noteq> CHR ''.'') ''7.0.100'' = ''7''" by simp
  have l: "linux example_base = ''/usr/share/dotnet''" by (simp add: example_base_def)
  show ?thesis
    using e install_dir_overwritten [of Linux example_base "''7.0.100''" ?W]
    by (simp add: t l)
qed

text \<open>
  The claim as stated asks that a value set beforehand survives the selection. With
  \<open>/opt/dotnet\<close> set and the version 7.0.100 on Linux, the variable is overwritten and the
  selected directory is the computed one.
\<close>

theorem install_dir_preserved_counterexample:
  "env (example_world [(''DOTNET_INSTALL_DIR'', ''/opt/dotnet'')]) ''DOTNET_INSTALL_DIR''
     = Some ''/opt/dotnet''
   \<and> env (new_InstallDir Linux example_base ''7.0.100''
            (example_world [(''DOTNET_INSTALL_DIR'', ''/opt/dotnet'')])) ''DOTNET_INSTALL_DIR''
     = Some ''/usr/share/dotnet/7''
   \<and> InstallDir_path Linux example_base
        (new_InstallDir Linux example_base ''7.0.100''
           (example_world [(''DOTNET_INSTALL_DIR'', ''/opt/dotnet'')]))
     \<noteq> ''/opt/dotnet''"
  by code_simp

end
